theory Spec2Isabelle
  imports Complex_Main
begin

section \<open>The GAMESS log-file parser of cclib (src/cclib/parser/gamessparser.py)\<close>

text \<open>
  The development embeds the class \<^verbatim>\<open>GAMESS\<close>: its symmetry-label normaliser
  \<^verbatim>\<open>normalisesym\<close>, the parse-local flags set by \<^verbatim>\<open>before_parsing\<close> and blocks of
  \<^verbatim>\<open>extract\<close>, the method that is handed one line of the log together with the file
  iterator and that may pull further lines from it. \<^verbatim>\<open>extract\<close> is a sequence of
  \<^verbatim>\<open>if\<close> statements, each testing the current value of the local variable
  \<^verbatim>\<open>line\<close> and, when the test passes, running the block that reads one section of the
  log. Each block embedded here is a function of its own, named after the section, with the
  lines of the source it covers in the heading above it.

  Conventions of the embedding.
  \<^item> A line is a \<^typ>\<open>string\<close>; the file iterator is the list of the lines not yet
    read, and \<^verbatim>\<open>inputfile.next()\<close> takes its head or raises \<^verbatim>\<open>StopIteration\<close>.
  \<^item> Every Python exception is a value of the datatype \<open>error\<close>. A block of
    \<^verbatim>\<open>extract\<close> returns either \<open>Inl (e, self)\<close>, the exception together with the
    object as mutated up to the raise, or \<open>Inr (self, line, inputfile)\<close>, the object,
    the local variable \<^verbatim>\<open>line\<close> and the iterator as the block leaves them.
  \<^item> An attribute that the source creates lazily (\<^verbatim>\<open>hasattr\<close>) is an \<open>option\<close>
    field of the record \<open>gamess\<close>.
  \<^item> Python floats are idealised as \<^typ>\<open>real\<close>: rounding is left out, and the values
    \<^verbatim>\<open>inf\<close> and \<^verbatim>\<open>nan\<close> have no counterpart. The builtin \<^verbatim>\<open>float\<close> on a string
    is a parameter \<open>flt\<close> (\<open>None\<close> stands for \<^verbatim>\<open>ValueError\<close>), and
    \<^verbatim>\<open>utils.convertor\<close>, which is not part of the parser source, is a parameter
    \<open>conv\<close>.
\<close>

subsection \<open>Python strings and lists\<close>

datatype error =
    StopIteration
  | ValueError
  | IndexError
  | UnboundLocalError
  | ZeroDivisionError
  | AssertionError
  | AttributeError
  | KeyError

text \<open>The characters that \<^verbatim>\<open>str.split()\<close> and \<^verbatim>\<open>str.strip()\<close> treat as white space.\<close>

definition is_space :: "char \<Rightarrow> bool" where
  "is_space c \<longleftrightarrow>
     c = CHR '' '' \<or> c = CHR 0x09 \<or> c = CHR 0x0A \<or> c = CHR 0x0B \<or> c = CHR 0x0C \<or> c = CHR 0x0D"

definition lstrip :: "string \<Rightarrow> string" where
  "lstrip s = dropWhile is_space s"

definition rstrip :: "string \<Rightarrow> string" where
  "rstrip s = rev (dropWhile is_space (rev s))"

definition strip :: "string \<Rightarrow> string" where
  "strip s = rstrip (lstrip s)"

text \<open>\<^verbatim>\<open>s.split()\<close>: the maximal runs of characters that are not white space.\<close>

fun split_acc :: "string \<Rightarrow> string \<Rightarrow> string list" where
  "split_acc cur [] = (if cur = [] then [] else [cur])"
| "split_acc cur (c # cs) =
     (if is_space c then (if cur = [] then split_acc [] cs else cur # split_acc [] cs)
      else split_acc (cur @ [c]) cs)"

definition split_ws :: "string \<Rightarrow> string list" where
  "split_ws s = split_acc [] s"

text \<open>\<^verbatim>\<open>s.split(sep)\<close> for a separator of one character.\<close>

fun split_on_acc :: "char \<Rightarrow> string \<Rightarrow> string \<Rightarrow> string list" where
  "split_on_acc sep cur [] = [cur]"
| "split_on_acc sep cur (c # cs) =
     (if c = sep then cur # split_on_acc sep [] cs else split_on_acc sep (cur @ [c]) cs)"

definition split_on :: "char \<Rightarrow> string \<Rightarrow> string list" where
  "split_on sep s = split_on_acc sep [] s"

text \<open>\<^verbatim>\<open>s.find(sub)\<close>: the lowest index at which \<open>sub\<close> occurs, or \<open>-1\<close>.\<close>

fun find_from :: "string \<Rightarrow> nat \<Rightarrow> string \<Rightarrow> int" where
  "find_from sub i [] = (if sub = [] then int i else - 1)"
| "find_from sub i (c # cs) =
     (if take (length sub) (c # cs) = sub then int i else find_from sub (Suc i) cs)"

definition py_find :: "string \<Rightarrow> string \<Rightarrow> int" where
  "py_find s sub = find_from sub 0 s"

text \<open>\<^verbatim>\<open>s[a:b]\<close> for constants \<open>0 \<le> a \<le> b\<close>.\<close>

definition slice :: "nat \<Rightarrow> nat \<Rightarrow> 'a list \<Rightarrow> 'a list" where
  "slice a b s = take (b - a) (drop a s)"

text \<open>\<^verbatim>\<open>xs[i]\<close>: a negative index counts from the end, an index out of range raises.\<close>

definition py_nth :: "'a list \<Rightarrow> int \<Rightarrow> error + 'a" where
  "py_nth xs i =
     (if 0 \<le> i \<and> i < int (length xs) then Inr (xs ! nat i)
      else if i < 0 \<and> - i \<le> int (length xs) then Inr (xs ! nat (int (length xs) + i))
      else Inl IndexError)"

text \<open>\<^verbatim>\<open>s.replace(old, new)\<close> for \<open>old\<close> and \<open>new\<close> of one character each.\<close>

definition replace_char :: "char \<Rightarrow> char \<Rightarrow> string \<Rightarrow> string" where
  "replace_char old new s = map (\<lambda>c. if c = old then new else c) s"




text \<open>\<^verbatim>\<open>int(s)\<close> on a string: optional white space around an optional sign and at least
  one decimal digit; anything else raises \<^verbatim>\<open>ValueError\<close>.\<close>

definition is_digit :: "char \<Rightarrow> bool" where
  "is_digit c \<longleftrightarrow> c \<in> set ''0123456789''"

definition digit_val :: "char \<Rightarrow> nat" where
  "digit_val c = (of_char c :: nat) - 48"

definition py_int :: "string \<Rightarrow> error + int" where
  "py_int s =
     (let t = strip s;
          signed = (t \<noteq> [] \<and> (hd t = CHR ''-'' \<or> hd t = CHR ''+''));
          ds = (if signed then tl t else t);
          n = int (foldl (\<lambda>a c. 10 * a + digit_val c) 0 ds)
      in if ds \<noteq> [] \<and> list_all is_digit ds
         then Inr (if signed \<and> hd t = CHR ''-'' then - n else n)
         else Inl ValueError)"

text \<open>\<^verbatim>\<open>int(x)\<close> on a float truncates towards zero; \<^verbatim>\<open>round(x)\<close> of Python 2 rounds
  to the nearest integer, halves away from zero.\<close>

definition py_trunc :: "real \<Rightarrow> int" where
  "py_trunc x = (if 0 \<le> x then \<lfloor>x\<rfloor> else \<lceil>x\<rceil>)"

definition py_round :: "real \<Rightarrow> int" where
  "py_round x = (if 0 \<le> x then \<lfloor>x + 1 / 2\<rfloor> else - \<lfloor>- x + 1 / 2\<rfloor>)"

text \<open>\<^verbatim>\<open>float(toks[i])\<close> and \<^verbatim>\<open>int(toks[i])\<close>: the index is evaluated first.\<close>

definition float_str :: "(string \<Rightarrow> real option) \<Rightarrow> string \<Rightarrow> error + real" where
  "float_str flt s = (case flt s of None \<Rightarrow> Inl ValueError | Some v \<Rightarrow> Inr v)"

definition float_tok :: "(string \<Rightarrow> real option) \<Rightarrow> string list \<Rightarrow> int \<Rightarrow> error + real" where
  "float_tok flt toks i = (case py_nth toks i of Inl e \<Rightarrow> Inl e | Inr t \<Rightarrow> float_str flt t)"

definition int_tok :: "string list \<Rightarrow> int \<Rightarrow> error + int" where
  "int_tok toks i = (case py_nth toks i of Inl e \<Rightarrow> Inl e | Inr t \<Rightarrow> py_int t)"

text \<open>\<^verbatim>\<open>map(float, toks)\<close>, left to right, stopping at the first token that does not parse.\<close>

fun float_all :: "(string \<Rightarrow> real option) \<Rightarrow> string list \<Rightarrow> error + real list" where
  "float_all flt [] = Inr []"
| "float_all flt (t # ts) =
     (case flt t of
        None \<Rightarrow> Inl ValueError
      | Some v \<Rightarrow> (case float_all flt ts of Inl e \<Rightarrow> Inl e | Inr vs \<Rightarrow> Inr (v # vs)))"

subsection \<open>The file iterator and the parser object\<close>

definition next_line :: "string list \<Rightarrow> error + string \<times> string list" where
  "next_line inputfile = (case inputfile of [] \<Rightarrow> Inl StopIteration | l # rest \<Rightarrow> Inr (l, rest))"

text \<open>\<^verbatim>\<open>for i in range(n): line = inputfile.next()\<close>, for \<open>n > 0\<close> the line read last.\<close>

fun skip_lines :: "nat \<Rightarrow> string \<Rightarrow> string list \<Rightarrow> error + string \<times> string list" where
  "skip_lines 0 line inputfile = Inr (line, inputfile)"
| "skip_lines (Suc n) line inputfile =
     (case inputfile of [] \<Rightarrow> Inl StopIteration | l # rest \<Rightarrow> skip_lines n l rest)"

type_synonym contrib = "(int \<times> int) \<times> (int \<times> int) \<times> real"

type_synonym geometry = "real list list"

type_synonym shell = "string \<times> (real \<times> real) list"

text \<open>
  The attributes of the parser object that the blocks below read or write. The three flags
  are set by \<^verbatim>\<open>before_parsing\<close>; every other attribute is absent until its block
  creates it.
\<close>

record gamess =
  firststdorient :: bool
  geooptfinished :: bool
  cihamtyp :: string
  geotargets :: "real list option"
  ccenergies :: "real list option"
  etsecs :: "contrib list list option"
  etsyms :: "string list option"
  atomcoords :: "geometry list option"
  atomnos :: "int list option"
  scftargets :: "real list list option"
  scfvalues :: "real list list list option"
  vibfreqs :: "real list option"
  vibirs :: "real list option"
  vibdisps :: "geometry list option"
  vibramans :: "real list option"
  gbasis :: "shell list list option"

text \<open>\<^verbatim>\<open>GAMESS.before_parsing\<close> (lines 57 to 61).\<close>

definition before_parsing :: "gamess \<Rightarrow> gamess" where
  "before_parsing self = self\<lparr>firststdorient := True, geooptfinished := False, cihamtyp := ''none''\<rparr>"

text \<open>The object on which no block has run yet: the flags set, every other attribute absent.\<close>

definition fresh :: gamess where
  "fresh = before_parsing
     \<lparr>firststdorient = False, geooptfinished = False, cihamtyp = [],
      geotargets = None, ccenergies = None, etsecs = None, etsyms = None,
      atomcoords = None, atomnos = None, scftargets = None, scfvalues = None,
      vibfreqs = None, vibirs = None, vibdisps = None, vibramans = None, gbasis = None\<rparr>"

text \<open>The result of a block, and the propagation of an exception out of it.\<close>

type_synonym outcome = "(error \<times> gamess) + (gamess \<times> string \<times> string list)"

definition raising :: "error + 'a \<Rightarrow> gamess \<Rightarrow> ('a \<Rightarrow> (error \<times> gamess) + 'b) \<Rightarrow> (error \<times> gamess) + 'b" where
  "raising r self k = (case r of Inl e \<Rightarrow> Inl (e, self) | Inr v \<Rightarrow> k v)"

lemma raising_cong [fundef_cong]:
  "r = r' \<Longrightarrow> self = self' \<Longrightarrow> (\<And>v. r' = Inr v \<Longrightarrow> k v = k' v)
   \<Longrightarrow> raising r self k = raising r' self' k'"
  by (simp add: raising_def split: sum.splits)

text \<open>\<^verbatim>\<open>if not hasattr(self, a): self.a = []\<close> leaves an existing list as it is.\<close>

definition created :: "'a list option \<Rightarrow> 'a list" where
  "created a = (case a of None \<Rightarrow> [] | Some xs \<Rightarrow> xs)"

subsection \<open>Geometry-optimisation targets (lines 66 to 78)\<close>

text \<open>
  The loop over \<^verbatim>\<open>enumerate(temp)\<close>. Every token that contains \<^verbatim>\<open>OPTTOL\<close> assigns
  \<^verbatim>\<open>self.geotargets\<close>; the division \<^verbatim>\<open>3. / opttol\<close> raises on zero.
\<close>

fun opttol_tokens ::
  "(string \<Rightarrow> real option) \<Rightarrow> string list \<Rightarrow> nat \<Rightarrow> string list \<Rightarrow> gamess \<Rightarrow> (error \<times> gamess) + gamess"
where
  "opttol_tokens flt temp i [] self = Inr self"
| "opttol_tokens flt temp i (x # xs) self =
     (if 0 \<le> py_find x ''OPTTOL'' then
        raising (if x = ''OPTTOL'' then float_tok flt temp (int i + 2)
                 else float_tok flt (split_on CHR ''='' x) 1) self
          (\<lambda>opttol.
             if opttol = 0 then Inl (ZeroDivisionError, self)
             else opttol_tokens flt temp (Suc i) xs (self\<lparr>geotargets := Some [opttol, 3 / opttol]\<rparr>))
      else opttol_tokens flt temp (Suc i) xs self)"

definition extract_opttol :: "(string \<Rightarrow> real option) \<Rightarrow> gamess \<Rightarrow> string \<Rightarrow> string list \<Rightarrow> outcome" where
  "extract_opttol flt self line inputfile =
     (if 0 \<le> py_find line ''OPTTOL'' \<and> geotargets self = None then
        (let temp = split_ws line
         in case opttol_tokens flt temp 0 temp self of
              Inl e \<Rightarrow> Inl e
            | Inr self' \<Rightarrow> Inr (self', line, inputfile))
      else Inr (self, line, inputfile))"

subsection \<open>Coupled-cluster energies (lines 127 to 142)\<close>

definition extract_ccd ::
  "(string \<Rightarrow> real option) \<Rightarrow> (real \<Rightarrow> string \<Rightarrow> string \<Rightarrow> real) \<Rightarrow> gamess \<Rightarrow> string \<Rightarrow> string list \<Rightarrow> outcome"
where
  "extract_ccd flt conv self line inputfile =
     (if slice 12 23 line = ''CCD ENERGY:'' then
        (let self1 = self\<lparr>ccenergies := Some (created (ccenergies self))\<rparr>
         in raising (float_tok flt (split_ws line) 2) self1
              (\<lambda>ccenergy.
                 Inr (self1\<lparr>ccenergies := Some (created (ccenergies self) @ [conv ccenergy ''hartree'' ''eV''])\<rparr>,
                      line, inputfile)))
      else Inr (self, line, inputfile))"

text \<open>
  The cascade: the value of the \<^verbatim>\<open>CCSD\<close> line is replaced by that of a
  \<^verbatim>\<open>CCSD[T]\<close> line directly after it, and that one by the value of a \<^verbatim>\<open>CCSD(T)\<close>
  line directly after the latter. The single \<^verbatim>\<open>append\<close> comes last.
\<close>

definition cc_append ::
  "(real \<Rightarrow> string \<Rightarrow> string \<Rightarrow> real) \<Rightarrow> gamess \<Rightarrow> real \<Rightarrow> string \<Rightarrow> string list \<Rightarrow> outcome"
where
  "cc_append conv self ccenergy line inputfile =
     Inr (self\<lparr>ccenergies := Some (created (ccenergies self) @ [conv ccenergy ''hartree'' ''eV''])\<rparr>,
          line, inputfile)"

definition extract_ccsd ::
  "(string \<Rightarrow> real option) \<Rightarrow> (real \<Rightarrow> string \<Rightarrow> string \<Rightarrow> real) \<Rightarrow> gamess \<Rightarrow> string \<Rightarrow> string list \<Rightarrow> outcome"
where
  "extract_ccsd flt conv self line inputfile =
     (if slice 8 23 line = ''CCSD    ENERGY:'' then
        (let self1 = self\<lparr>ccenergies := Some (created (ccenergies self))\<rparr>
         in raising (float_tok flt (split_ws line) 2) self1 (\<lambda>ccenergy1.
            raising (next_line inputfile) self1 (\<lambda>(line2, inputfile2).
              if slice 8 23 line2 = ''CCSD[T] ENERGY:'' then
                raising (float_tok flt (split_ws line2) 2) self1 (\<lambda>ccenergy2.
                raising (next_line inputfile2) self1 (\<lambda>(line3, inputfile3).
                  if slice 8 23 line3 = ''CCSD(T) ENERGY:'' then
                    raising (float_tok flt (split_ws line3) 2) self1 (\<lambda>ccenergy3.
                      cc_append conv self1 ccenergy3 line3 inputfile3)
                  else cc_append conv self1 ccenergy2 line3 inputfile3))
              else cc_append conv self1 ccenergy1 line2 inputfile2)))
      else Inr (self, line, inputfile))"

subsection \<open>Excited states of a CIS run (lines 170 to 212)\<close>

definition extract_cihamtyp :: "gamess \<Rightarrow> string \<Rightarrow> gamess" where
  "extract_cihamtyp self line =
     (let self1 = (if slice 8 64 line = ''RESULTS FROM SPIN-ADAPTED ANTISYMMETRIZED PRODUCT (SAPS)''
                   then self\<lparr>cihamtyp := ''saps''\<rparr> else self)
      in if slice 8 64 line = ''RESULTS FROM DETERMINANT BASED ATOMIC ORBITAL CI-SINGLES''
         then self1\<lparr>cihamtyp := ''dets''\<rparr> else self1)"

text \<open>One pass of the body of the \<^verbatim>\<open>while\<close> loop (lines 197 to 210): the contribution
  that a row yields under the Hamiltonian type \<open>ham\<close>.\<close>

definition cis_row :: "(string \<Rightarrow> real option) \<Rightarrow> string \<Rightarrow> string \<Rightarrow> error + contrib" where
  "cis_row flt ham line =
     (case (if ham = ''dets'' then py_nth (split_ws line) 0 else Inr []) of
        Inl e \<Rightarrow> Inl e
      | Inr first \<Rightarrow>
     (let MOtype = (if ham = ''dets'' \<and> first = ''BETA'' then 1 else 0) in
      case int_tok (split_ws line) (- 3) of
        Inl e \<Rightarrow> Inl e
      | Inr fromMO \<Rightarrow>
     (case int_tok (split_ws line) (- 2) of
        Inl e \<Rightarrow> Inl e
      | Inr toMO \<Rightarrow>
     (case float_tok flt (split_ws line) (- 1) of
        Inl e \<Rightarrow> Inl e
      | Inr coeff \<Rightarrow>
          Inr ((fromMO - 1, MOtype), (toMO - 1, MOtype),
               if ham = ''saps'' then coeff / sqrt 2 else coeff)))))"

text \<open>The loop itself (lines 196 to 211): it stops at the row whose first character that is
  not white space is a hyphen, and \<^verbatim>\<open>line.strip()[0]\<close> raises on a blank row.\<close>

fun cis_rows ::
  "(string \<Rightarrow> real option) \<Rightarrow> string \<Rightarrow> contrib list \<Rightarrow> string \<Rightarrow> string list
   \<Rightarrow> error + (contrib list \<times> string \<times> string list)"
where
  "cis_rows flt ham CIScontribs line inputfile =
     (case py_nth (strip line) 0 of
        Inl e \<Rightarrow> Inl e
      | Inr c \<Rightarrow>
          if c \<noteq> CHR ''-'' then
            (case cis_row flt ham line of
               Inl e \<Rightarrow> Inl e
             | Inr contribution \<Rightarrow>
                 (case inputfile of
                    [] \<Rightarrow> Inl StopIteration
                  | l # rest \<Rightarrow> cis_rows flt ham (CIScontribs @ [contribution]) l rest))
          else Inr (CIScontribs, line, inputfile))"

declare cis_rows.simps [simp del]

definition extract_etsecs :: "(string \<Rightarrow> real option) \<Rightarrow> gamess \<Rightarrow> string \<Rightarrow> string list \<Rightarrow> outcome" where
  "extract_etsecs flt self line inputfile =
     (if slice 1 14 line = ''EXCITED STATE'' then
        (let self1 = self\<lparr>etsecs := Some (created (etsecs self)), etsyms := Some (created (etsyms self))\<rparr>
         in raising (int_tok (split_ws line) 2) self1 (\<lambda>statenumber.
            raising (float_tok flt (split_ws line) 7) self1 (\<lambda>spinvalue.
            raising (if py_trunc spinvalue = 0 then Inr ''Singlet''
                     else if py_trunc spinvalue = 1 then Inr ''Triplet''
                     else Inl UnboundLocalError) self1 (\<lambda>sym.
            raising (py_nth (split_ws line) (- 1)) self1 (\<lambda>irrep.
              (let self2 = self1\<lparr>etsyms := Some (created (etsyms self) @ [sym @ ''-'' @ irrep])\<rparr>
               in raising (skip_lines 6 line inputfile) self2 (\<lambda>(line1, inputfile1).
                  raising (cis_rows flt (cihamtyp self) [] line1 inputfile1) self2
                    (\<lambda>(CIScontribs, line2, inputfile2).
                       Inr (self2\<lparr>etsecs := Some (created (etsecs self) @ [CIScontribs])\<rparr>,
                            line2, inputfile2)))))))))
      else Inr (self, line, inputfile))"

subsection \<open>Geometries (lines 231 to 274)\<close>

text \<open>The rows of an input-orientation block (lines 242 to 246): the atomic number is the
  second token read as a float and rounded, the coordinates are tokens 2 to 4, converted.\<close>

fun input_rows ::
  "(string \<Rightarrow> real option) \<Rightarrow> (real \<Rightarrow> string \<Rightarrow> string \<Rightarrow> real) \<Rightarrow> geometry \<Rightarrow> int list \<Rightarrow> string \<Rightarrow> string list
   \<Rightarrow> error + (geometry \<times> int list \<times> string \<times> string list)"
where
  "input_rows flt conv coords nos line inputfile =
     (if strip line \<noteq> [] then
        (case float_all flt (slice 2 5 (split_ws (strip line))) of
           Inl e \<Rightarrow> Inl e
         | Inr xs \<Rightarrow>
        (case float_tok flt (split_ws (strip line)) 1 of
           Inl e \<Rightarrow> Inl e
         | Inr z \<Rightarrow>
        (case inputfile of
           [] \<Rightarrow> Inl StopIteration
         | l # rest \<Rightarrow>
             input_rows flt conv (coords @ [map (\<lambda>x. conv x ''bohr'' ''Angstrom'') xs])
               (nos @ [py_round z]) l rest)))
      else Inr (coords, nos, line, inputfile))"

declare input_rows.simps [simp del]

definition extract_inputorient ::
  "(string \<Rightarrow> real option) \<Rightarrow> (real \<Rightarrow> string \<Rightarrow> string \<Rightarrow> real) \<Rightarrow> gamess \<Rightarrow> string \<Rightarrow> string list \<Rightarrow> outcome"
where
  "extract_inputorient flt conv self line inputfile =
     (if slice 11 50 line = ''ATOMIC                      COORDINATES'' then
        (let self1 = (if atomcoords self = None then self\<lparr>atomcoords := Some [], atomnos := Some []\<rparr>
                      else self)
         in raising (next_line inputfile) self1 (\<lambda>(line1, inputfile1).
            raising (next_line inputfile1) self1 (\<lambda>(line2, inputfile2).
            raising (input_rows flt conv [] [] line2 inputfile2) self1
              (\<lambda>(coords, nos, line3, inputfile3).
                 Inr (self1\<lparr>atomnos := Some nos, atomcoords := Some (created (atomcoords self) @ [coords])\<rparr>,
                      line3, inputfile3)))))
      else Inr (self, line, inputfile))"

definition extract_equilibrium :: "gamess \<Rightarrow> string \<Rightarrow> string list \<Rightarrow> outcome" where
  "extract_equilibrium self line inputfile =
     (if slice 12 40 line = ''EQUILIBRIUM GEOMETRY LOCATED''
      then Inr (self\<lparr>geooptfinished := True\<rparr>, line, inputfile)
      else Inr (self, line, inputfile))"

text \<open>The rows of a standard-orientation block (lines 270 to 273).\<close>

fun std_rows ::
  "(string \<Rightarrow> real option) \<Rightarrow> geometry \<Rightarrow> string \<Rightarrow> string list \<Rightarrow> error + (geometry \<times> string \<times> string list)"
where
  "std_rows flt coords line inputfile =
     (if strip line \<noteq> [] then
        (case float_all flt (slice 2 5 (split_ws (strip line))) of
           Inl e \<Rightarrow> Inl e
         | Inr xs \<Rightarrow>
        (case inputfile of
           [] \<Rightarrow> Inl StopIteration
         | l # rest \<Rightarrow> std_rows flt (coords @ [xs]) l rest))
      else Inr (coords, line, inputfile))"

declare std_rows.simps [simp del]

text \<open>The standard-orientation block (lines 254 to 274). On its first run the flag
  \<^verbatim>\<open>firststdorient\<close> is cleared and \<^verbatim>\<open>self.atomcoords\<close> is emptied, before any line
  is read.\<close>

definition extract_stdorient :: "(string \<Rightarrow> real option) \<Rightarrow> gamess \<Rightarrow> string \<Rightarrow> string list \<Rightarrow> outcome" where
  "extract_stdorient flt self line inputfile =
     (if slice 1 29 line = ''COORDINATES OF ALL ATOMS ARE'' \<and> \<not> geooptfinished self then
        (let self1 = (if firststdorient self then self\<lparr>firststdorient := False, atomcoords := Some []\<rparr>
                      else self)
         in raising (next_line inputfile) self1 (\<lambda>(line1, inputfile1).
            raising (next_line inputfile1) self1 (\<lambda>(hyphens, inputfile2).
            raising (next_line inputfile2) self1 (\<lambda>(line3, inputfile3).
            raising (std_rows flt [] line3 inputfile3) self1 (\<lambda>(coords, line4, inputfile4).
              (case atomcoords self1 of
                 None \<Rightarrow> Inl (AttributeError, self1)
               | Some geoms \<Rightarrow> Inr (self1\<lparr>atomcoords := Some (geoms @ [coords])\<rparr>, line4, inputfile4)))))))
      else Inr (self, line, inputfile))"

text \<open>The three blocks in the order of the source, each on the line its predecessor left.\<close>

definition then_block :: "outcome \<Rightarrow> (gamess \<Rightarrow> string \<Rightarrow> string list \<Rightarrow> outcome) \<Rightarrow> outcome" where
  "then_block r block = (case r of Inl e \<Rightarrow> Inl e | Inr (self, line, inputfile) \<Rightarrow> block self line inputfile)"

definition extract_geometry ::
  "(string \<Rightarrow> real option) \<Rightarrow> (real \<Rightarrow> string \<Rightarrow> string \<Rightarrow> real) \<Rightarrow> gamess \<Rightarrow> string \<Rightarrow> string list \<Rightarrow> outcome"
where
  "extract_geometry flt conv self line inputfile =
     then_block (then_block (extract_inputorient flt conv self line inputfile) extract_equilibrium)
       (extract_stdorient flt)"

subsection \<open>SCF convergence (lines 276 to 318)\<close>

definition py_suffix :: "nat \<Rightarrow> string \<Rightarrow> string" where
  "py_suffix n s = drop (length s - n) s"

text \<open>The threshold of a line that holds one of the two phrasings (lines 288 to 294).\<close>

definition scf_target_of :: "(string \<Rightarrow> real option) \<Rightarrow> string \<Rightarrow> error + real" where
  "scf_target_of flt line =
     (let index = (if py_find line ''DENSITY CONV='' < 0
                   then py_find line ''DENSITY MATRIX CONV='' + 20
                   else py_find line ''DENSITY CONV='' + 13)
      in float_tok flt (split_ws (drop (nat index) line)) 0)"

text \<open>The scan for the header of the iteration table (lines 279 to 295); the local variable
  \<^verbatim>\<open>scftarget\<close> is unbound until a threshold line is met.\<close>

fun scf_header ::
  "(string \<Rightarrow> real option) \<Rightarrow> real option \<Rightarrow> string \<Rightarrow> string list
   \<Rightarrow> error + (real option \<times> string \<times> string list)"
where
  "scf_header flt scftarget line inputfile =
     (if py_find line ''ITER EX'' < 0 then
        (case (if 0 \<le> py_find line ''DENSITY CONV='' \<or> 0 \<le> py_find line ''DENSITY MATRIX CONV=''
               then (case scf_target_of flt line of Inl e \<Rightarrow> Inl e | Inr t \<Rightarrow> Inr (Some t))
               else Inr scftarget) of
           Inl e \<Rightarrow> Inl e
         | Inr scftarget' \<Rightarrow>
        (case inputfile of
           [] \<Rightarrow> Inl StopIteration
         | l # rest \<Rightarrow> scf_header flt scftarget' l rest))
      else Inr (scftarget, line, inputfile))"

declare scf_header.simps [simp del]

text \<open>The iteration table (lines 305 to 317). A row whose first four characters are not an
  integer is skipped (\<^verbatim>\<open>except ValueError: pass\<close>); the read of the sixth token stands in
  the \<^verbatim>\<open>else\<close> clause, outside the handler.\<close>

fun scf_table ::
  "(string \<Rightarrow> real option) \<Rightarrow> real list list \<Rightarrow> string \<Rightarrow> string list
   \<Rightarrow> error + (real list list \<times> string \<times> string list)"
where
  "scf_table flt values line inputfile =
     (if strip line \<noteq> [] then
        (case (case py_int (slice 0 4 line) of
                 Inl ValueError \<Rightarrow> Inr values
               | Inl e \<Rightarrow> Inl e
               | Inr temp \<Rightarrow>
                   (case float_tok flt (split_ws line) 5 of
                      Inl e \<Rightarrow> Inl e
                    | Inr v \<Rightarrow> Inr (values @ [[v]]))) of
           Inl e \<Rightarrow> Inl e
         | Inr values' \<Rightarrow>
        (case inputfile of
           [] \<Rightarrow> Inl StopIteration
         | l # rest \<Rightarrow> scf_table flt values' l rest))
      else Inr (values, line, inputfile))"

declare scf_table.simps [simp del]

definition extract_scf :: "(string \<Rightarrow> real option) \<Rightarrow> gamess \<Rightarrow> string \<Rightarrow> string list \<Rightarrow> outcome" where
  "extract_scf flt self line inputfile =
     (if py_suffix 15 (rstrip line) = ''SCF CALCULATION'' then
        raising (next_line inputfile) self (\<lambda>(line1, inputfile1).
        raising (scf_header flt None line1 inputfile1) self (\<lambda>(scftarget, line2, inputfile2).
          (let self1 = self\<lparr>scftargets := Some (created (scftargets self))\<rparr>
           in raising (case scftarget of None \<Rightarrow> Inl UnboundLocalError | Some t \<Rightarrow> Inr t) self1 (\<lambda>t.
              (let self2 = self\<lparr>scftargets := Some (created (scftargets self) @ [[t]]),
                                scfvalues := Some (created (scfvalues self))\<rparr>
               in raising (next_line inputfile2) self2 (\<lambda>(line3, inputfile3).
                  raising (scf_table flt [] line3 inputfile3) self2 (\<lambda>(values, line4, inputfile4).
                    Inr (self2\<lparr>scfvalues := Some (created (scfvalues self) @ [values])\<rparr>,
                         line4, inputfile4))))))))
      else Inr (self, line, inputfile))"

subsection \<open>Exclusion of rotations and translations (lines 436 to 441)\<close>



subsection \<open>The basis set (lines 443 to 496)\<close>

text \<open>\<^verbatim>\<open>coeff.setdefault(k, []).append(v)\<close> on the dictionary \<^verbatim>\<open>coeff\<close>.\<close>

definition setdefault_append ::
  "(string \<rightharpoonup> (real \<times> real) list) \<Rightarrow> string \<Rightarrow> real \<times> real \<Rightarrow> (string \<rightharpoonup> (real \<times> real) list)"
where
  "setdefault_append coeff k v = coeff(k \<mapsto> created (coeff k) @ [v])"

text \<open>A token with its last character removed, after the check that this character is a
  closing parenthesis (the PC GAMESS layout).\<close>

definition exponent_pair ::
  "(string \<Rightarrow> real option) \<Rightarrow> string list \<Rightarrow> string \<Rightarrow> error + real \<times> real"
where
  "exponent_pair flt temp tok =
     (case float_tok flt temp 3 of
        Inl e \<Rightarrow> Inl e
      | Inr a \<Rightarrow> (case float_str flt tok of Inl e \<Rightarrow> Inl e | Inr b \<Rightarrow> Inr (a, b)))"

text \<open>One row of primitives (lines 465 to 481): the new dictionary and the symmetry read.\<close>

definition basis_row ::
  "(string \<Rightarrow> real option) \<Rightarrow> (string \<rightharpoonup> (real \<times> real) list) \<Rightarrow> string
   \<Rightarrow> error + ((string \<rightharpoonup> (real \<times> real) list) \<times> string)"
where
  "basis_row flt coeff line =
     (let temp = split_ws (strip line) in
      case py_nth temp 1 of
        Inl e \<Rightarrow> Inl e
      | Inr symb \<Rightarrow>
          if symb \<notin> set [''S'', ''P'', ''D'', ''F'', ''G'', ''L''] then Inl AssertionError
          else if symb = ''L'' then
            (if length temp = 6 then
               (case exponent_pair flt temp (temp ! 4) of
                  Inl e \<Rightarrow> Inl e
                | Inr s \<Rightarrow>
               (case exponent_pair flt temp (temp ! 5) of
                  Inl e \<Rightarrow> Inl e
                | Inr p \<Rightarrow> Inr (setdefault_append (setdefault_append coeff ''S'' s) ''P'' p, symb)))
             else
               (case py_nth temp 6 of
                  Inl e \<Rightarrow> Inl e
                | Inr t6 \<Rightarrow>
               (case py_nth temp 9 of
                  Inl e \<Rightarrow> Inl e
                | Inr t9 \<Rightarrow>
                    if \<not> (last t6 = last t9 \<and> last t9 = CHR '')'') then Inl AssertionError
                    else
                      (case exponent_pair flt temp (butlast t6) of
                         Inl e \<Rightarrow> Inl e
                       | Inr s \<Rightarrow>
                      (case exponent_pair flt temp (butlast t9) of
                         Inl e \<Rightarrow> Inl e
                       | Inr p \<Rightarrow>
                           Inr (setdefault_append (setdefault_append coeff ''S'' s) ''P'' p, symb))))))
          else
            (if length temp = 5 then
               (case exponent_pair flt temp (temp ! 4) of
                  Inl e \<Rightarrow> Inl e
                | Inr c \<Rightarrow> Inr (setdefault_append coeff symb c, symb))
             else
               (case py_nth temp 6 of
                  Inl e \<Rightarrow> Inl e
                | Inr t6 \<Rightarrow>
                    if last t6 \<noteq> CHR '')'' then Inl AssertionError
                    else
                      (case exponent_pair flt temp (butlast t6) of
                         Inl e \<Rightarrow> Inl e
                       | Inr c \<Rightarrow> Inr (setdefault_append coeff symb c, symb)))))"

text \<open>The rows of one shell (lines 464 to 482). The local variable \<^verbatim>\<open>sym\<close> keeps the
  value of the row read last, also from an earlier shell.\<close>

fun basis_rows ::
  "(string \<Rightarrow> real option) \<Rightarrow> (string \<rightharpoonup> (real \<times> real) list) \<Rightarrow> string option \<Rightarrow> string \<Rightarrow> string list
   \<Rightarrow> error + ((string \<rightharpoonup> (real \<times> real) list) \<times> string option \<times> string \<times> string list)"
where
  "basis_rows flt coeff symb line inputfile =
     (if strip line \<noteq> [] then
        (case basis_row flt coeff line of
           Inl e \<Rightarrow> Inl e
         | Inr (coeff', symb') \<Rightarrow>
        (case inputfile of
           [] \<Rightarrow> Inl StopIteration
         | l # rest \<Rightarrow> basis_rows flt coeff' (Some symb') l rest))
      else Inr (coeff, symb, line, inputfile))"

declare basis_rows.simps [simp del]

text \<open>The entries that a finished shell adds to the description of its atom (lines 484 to
  488): an \<open>L\<close> shell gives an \<open>S\<close> and a \<open>P\<close> entry.\<close>

definition shell_entries ::
  "(string \<rightharpoonup> (real \<times> real) list) \<Rightarrow> string option \<Rightarrow> error + shell list"
where
  "shell_entries coeff symb =
     (case symb of
        None \<Rightarrow> Inl UnboundLocalError
      | Some s \<Rightarrow>
          if s = ''L'' then
            (case coeff ''S'' of
               None \<Rightarrow> Inl KeyError
             | Some cs \<Rightarrow>
            (case coeff ''P'' of
               None \<Rightarrow> Inl KeyError
             | Some cp \<Rightarrow> Inr [(''S'', cs), (''P'', cp)]))
          else
            (case coeff s of
               None \<Rightarrow> Inl KeyError
             | Some c \<Rightarrow> Inr [(s, c)]))"

lemma basis_rows_length:
  "basis_rows flt coeff symb line inputfile = Inr (coeff', symb', line', inputfile')
   \<Longrightarrow> length inputfile' \<le> length inputfile"
proof (induction inputfile arbitrary: coeff symb line)
  case Nil
  then show ?case
    by (subst (asm) basis_rows.simps) (simp split: if_splits sum.splits)
next
  case (Cons l rest)
  from Cons.prems show ?case
    by (subst (asm) basis_rows.simps) (auto split: if_splits sum.splits dest: Cons.IH)
qed

text \<open>The shells of one atom (lines 460 to 489): the loop ends at a line of exactly one token
  (the name of the next atom) or at the \<^verbatim>\<open>TOTAL NUMBER\<close> line.\<close>

function basis_shells ::
  "(string \<Rightarrow> real option) \<Rightarrow> shell list \<Rightarrow> int \<Rightarrow> string option \<Rightarrow> string \<Rightarrow> string list
   \<Rightarrow> error + (shell list \<times> int \<times> string option \<times> string \<times> string list)"
where
  "basis_shells flt atom_gbasis shellsize symb line inputfile =
     (if length (split_ws line) \<noteq> 1 \<and> py_find line ''TOTAL NUMBER'' < 0 then
        (case basis_rows flt Map.empty symb line inputfile of
           Inl e \<Rightarrow> Inl e
         | Inr (coeff, symb', line', inputfile') \<Rightarrow>
        (case shell_entries coeff symb' of
           Inl e \<Rightarrow> Inl e
         | Inr entries \<Rightarrow>
        (case inputfile' of
           [] \<Rightarrow> Inl StopIteration
         | l # rest \<Rightarrow> basis_shells flt (atom_gbasis @ entries) (shellsize + 1) symb' l rest)))
      else Inr (atom_gbasis, shellsize, symb, line, inputfile))"
  by pat_completeness auto
termination
  by (relation "measure (\<lambda>(flt, atom_gbasis, shellsize, symb, line, inputfile). length inputfile)")
    (auto dest!: basis_rows_length)

declare basis_shells.simps [simp del]

lemma basis_shells_length:
  "basis_shells flt atom_gbasis shellsize symb line inputfile = Inr (g, n, symb', line', inputfile')
   \<Longrightarrow> length inputfile' \<le> length inputfile"
proof (induction flt atom_gbasis shellsize symb line inputfile rule: basis_shells.induct)
  case (1 flt atom_gbasis shellsize symb line inputfile)
  show ?case
  proof (cases "length (split_ws line) \<noteq> 1 \<and> py_find line ''TOTAL NUMBER'' < 0")
    case False
    with "1.prems" show ?thesis
      by (subst (asm) basis_shells.simps) auto
  next
    case True
    with "1.prems" basis_shells.simps[of flt atom_gbasis shellsize symb line inputfile]
    obtain coeff s1 l1 i1 entries l rest where
      rows: "basis_rows flt Map.empty symb line inputfile = Inr (coeff, s1, l1, i1)"
      and ent: "shell_entries coeff s1 = Inr entries"
      and i1: "i1 = l # rest"
      and rec: "basis_shells flt (atom_gbasis @ entries) (shellsize + 1) s1 l rest = Inr (g, n, symb', line', inputfile')"
      by (auto split: sum.splits list.splits)
    from "1.IH"[OF True rows refl refl refl ent i1 rec] have "length inputfile' \<le> length rest" .
    moreover from basis_rows_length[OF rows] i1 have "length rest < length inputfile" by simp
    ultimately show ?thesis by simp
  qed
qed

text \<open>The atoms (lines 453 to 496). \<^verbatim>\<open>shellcounter\<close> is the shell index that directly
  follows the description read last; the description just read is appended
  \<^verbatim>\<open>1 + shellgap / shellsize\<close> times (integer division of Python 2).\<close>

function basis_atoms ::
  "(string \<Rightarrow> real option) \<Rightarrow> gamess \<Rightarrow> int \<Rightarrow> string option \<Rightarrow> string \<Rightarrow> string list
   \<Rightarrow> (error \<times> gamess) + (gamess \<times> string option \<times> string \<times> string list)"
where
  "basis_atoms flt self shellcounter symb line inputfile =
     (if py_find line ''TOTAL NUMBER'' < 0 then
        raising (next_line inputfile) self (\<lambda>(blank, inputfile1).
        raising (next_line inputfile1) self (\<lambda>(line1, inputfile2).
        raising (int_tok (split_ws line1) 0) self (\<lambda>shellno.
        raising (basis_shells flt [] 0 symb line1 inputfile2) self
          (\<lambda>(atom_gbasis, shellsize, symb', line2, inputfile3).
             if shellsize = 0 then Inl (ZeroDivisionError, self)
             else
               basis_atoms flt
                 (self\<lparr>gbasis := Some (created (gbasis self)
                            @ replicate (nat (1 + (shellno - shellcounter) div shellsize)) atom_gbasis)\<rparr>)
                 (shellno + shellsize) symb' line2 inputfile3))))
      else Inr (self, symb, line, inputfile))"
  by pat_completeness auto
termination
  by (relation "measure (\<lambda>(flt, self, shellcounter, symb, line, inputfile). length inputfile)")
    (auto simp: next_line_def split: list.splits dest!: basis_shells_length)

declare basis_atoms.simps [simp del]

text \<open>\<^verbatim>\<open>while line.find("SHELL") < 0: line = inputfile.next()\<close> (lines 446 and 447).\<close>

fun skip_to_shell :: "string \<Rightarrow> string list \<Rightarrow> error + string \<times> string list" where
  "skip_to_shell line inputfile =
     (if py_find line ''SHELL'' < 0 then
        (case inputfile of [] \<Rightarrow> Inl StopIteration | l # rest \<Rightarrow> skip_to_shell l rest)
      else Inr (line, inputfile))"

declare skip_to_shell.simps [simp del]

text \<open>The block. Its argument \<open>symb\<close> is the local variable \<^verbatim>\<open>sym\<close> of \<^verbatim>\<open>extract\<close>
  as the earlier blocks of the same call left it: bound only if the excited-state block
  ran.\<close>

definition extract_gbasis ::
  "(string \<Rightarrow> real option) \<Rightarrow> gamess \<Rightarrow> string option \<Rightarrow> string \<Rightarrow> string list \<Rightarrow> outcome"
where
  "extract_gbasis flt self symb line inputfile =
     (if slice 5 21 line = ''ATOMIC BASIS SET'' then
        (let self1 = self\<lparr>gbasis := Some []\<rparr>
         in raising (next_line inputfile) self1 (\<lambda>(line1, inputfile1).
            raising (skip_to_shell line1 inputfile1) self1 (\<lambda>(line2, inputfile2).
            raising (next_line inputfile2) self1 (\<lambda>(blank, inputfile3).
            raising (next_line inputfile3) self1 (\<lambda>(atomname, inputfile4).
              (case basis_atoms flt self1 1 symb line2 inputfile4 of
                 Inl e \<Rightarrow> Inl e
               | Inr (self2, symb', line3, inputfile5) \<Rightarrow> Inr (self2, line3, inputfile5)))))))
      else Inr (self, line, inputfile))"

subsection \<open>The trigger of the molecular-orbital block (line 498)\<close>

definition eigenvectors_trigger :: "string \<Rightarrow> bool" where
  "eigenvectors_trigger line \<longleftrightarrow>
     py_find line ''EIGENVECTORS'' = 10 \<or> py_find line ''MOLECULAR OBRITALS'' = 10"

subsection \<open>The symmetry-label normaliser\<close>

text \<open>
  \<^verbatim>\<open>GAMESS.normalisesym\<close> (lines 37 to 55). The slice \<^verbatim>\<open>label[1:]\<close> never raises;
  \<^verbatim>\<open>label[0]\<close> is evaluated last, in the \<^verbatim>\<open>return\<close>.
\<close>

definition normalisesym :: "string \<Rightarrow> error + string" where
  "normalisesym label =
     (let end = (if drop 1 label = [CHR 0x27, CHR 0x27] then [CHR 0x22]
                 else replace_char CHR ''G'' CHR ''g''
                        (replace_char CHR ''U'' CHR ''u'' (drop 1 label)))
      in case py_nth label 0 of
           Inl e \<Rightarrow> Inl e
         | Inr c \<Rightarrow> Inr (c # end))"

text \<open>
  The rule as the specification words it (section 4.2): after the first character, two
  single quotes become one double quote; otherwise every \<open>U\<close> and \<open>G\<close> after the first
  character is lower-cased and nothing else changes.
\<close>

definition lower_UG :: "char \<Rightarrow> char" where
  "lower_UG c = (if c = CHR ''U'' then CHR ''u'' else if c = CHR ''G'' then CHR ''g'' else c)"

definition normalize_spec :: "string \<Rightarrow> string" where
  "normalize_spec label =
     (case label of
        [] \<Rightarrow> []
      | c # rest \<Rightarrow>
          if rest = [CHR 0x27, CHR 0x27] then [c, CHR 0x22] else c # map lower_UG rest)"

subsection \<open>Concrete readings of the parameters\<close>

text \<open>To run the model on a concrete log, \<open>flt\<close> is read off a table of the literals
  that occur in it, and \<open>conv\<close> multiplies by the factor of the unit pair.\<close>

definition lit_float :: "string \<Rightarrow> real option" where
  "lit_float = map_of
     [(''1.000E-04'', 1 / 10000), (''1.500E-03'', 3 / 2000),
      (''-76.2402'', - 762402 / 10000), (''-76.2411'', - 762411 / 10000), (''-76.2410'', - 762410 / 10000),
      (''0.0'', 0), (''0.5'', 1 / 2), (''1.0'', 1), (''2.0'', 2), (''6.0'', 6), (''-0.25'', - 1 / 4),
      (''0.25'', 1 / 4), (''1.00E-05'', 1 / 100000)]"

definition unit_conv :: "real \<Rightarrow> string \<Rightarrow> string \<Rightarrow> real" where
  "unit_conv x f t =
     (if f = ''hartree'' \<and> t = ''eV'' then x * 27.2113845
      else if f = ''bohr'' \<and> t = ''Angstrom'' then x * 0.529177
      else x)"

text \<open>What the specification says a contribution row stores (sections 3 and 4.6): the two
  orbital indices made 0-based, each paired with the spin channel, which is 1 only under
  the Hamiltonian type \<open>dets\<close> on a row whose leading token is \<open>BETA\<close>, and the
  coefficient, divided by the square root of 2 only under the type \<open>saps\<close>.\<close>

definition row_stored :: "(string \<Rightarrow> real option) \<Rightarrow> string \<Rightarrow> string \<Rightarrow> contrib \<Rightarrow> bool" where
  "row_stored flt ham line c =
     (case (int_tok (split_ws line) (- 3), int_tok (split_ws line) (- 2), float_tok flt (split_ws line) (- 1)) of
        (Inr fromMO, Inr toMO, Inr raw) \<Rightarrow>
          (let channel = (if ham = ''dets'' \<and> take 1 (split_ws line) = [''BETA''] then 1 else 0)
           in c = ((fromMO - 1, channel), (toMO - 1, channel),
                   if ham = ''saps'' then raw / sqrt 2 else raw))
      | _ \<Rightarrow> False)"

text \<open>A row of the iteration table that the loop can pass: its first four characters are
  not an integer (a banner line), or they are and the sixth token is a float.\<close>

definition scf_row_ok :: "(string \<Rightarrow> real option) \<Rightarrow> string \<Rightarrow> bool" where
  "scf_row_ok flt l =
     (case py_int (slice 0 4 l) of
        Inl e \<Rightarrow> e = ValueError
      | Inr n \<Rightarrow> (case float_tok flt (split_ws l) 5 of Inl e \<Rightarrow> False | Inr v \<Rightarrow> True))"


text \<open>The object as a block leaves it, whether the block returns or raises.\<close>

definition outcome_state :: "outcome \<Rightarrow> gamess" where
  "outcome_state r = (case r of Inl (e, self) \<Rightarrow> self | Inr (self, line, inputfile) \<Rightarrow> self)"

section \<open>Properties\<close>

subsection \<open>The symmetry-label normaliser\<close>

lemma replace_UG: "replace_char CHR ''G'' CHR ''g'' (replace_char CHR ''U'' CHR ''u'' s) = map lower_UG s"
  by (induction s) (simp_all add: replace_char_def lower_UG_def)

lemma normalisesym_Cons:
  "normalisesym (c # rest) =
     Inr (if rest = [CHR 0x27, CHR 0x27] then [c, CHR 0x22] else c # map lower_UG rest)"
  by (simp add: normalisesym_def py_nth_def replace_UG)

text \<open>
  Claim C4. On every non-empty label the normaliser returns the label that the rule of the
  specification describes: the first character followed by one double quote when the rest
  is two single quotes, and otherwise the label with every \<open>U\<close> and \<open>G\<close> after the first
  character lower-cased and every other character, the first included, unchanged. The five
  examples of the specification (\<open>A\<close>, \<open>A1G\<close>, \<open>A'\<close>, \<open>A''\<close>, \<open>AG\<close>) come out as stated.
\<close>

theorem normalisesym_rule:
  "(\<forall>label. label \<noteq> [] \<longrightarrow> normalisesym label = Inr (normalize_spec label))
   \<and> normalisesym ''A'' = Inr ''A''
   \<and> normalisesym ''A1G'' = Inr ''A1g''
   \<and> normalisesym [CHR ''A'', CHR 0x27] = Inr [CHR ''A'', CHR 0x27]
   \<and> normalisesym [CHR ''A'', CHR 0x27, CHR 0x27] = Inr [CHR ''A'', CHR 0x22]
   \<and> normalisesym ''AG'' = Inr ''Ag''"
proof -
  have "normalisesym label = Inr (normalize_spec label)" if "label \<noteq> []" for label
    using that by (cases label) (simp_all add: normalisesym_Cons normalize_spec_def)
  then show ?thesis
    by (simp add: normalisesym_Cons lower_UG_def)
qed

theorem normalisesym_rule_witness:
  "''B2U'' \<noteq> [] \<and> normalisesym ''B2U'' = Inr ''B2u''"
proof -
  have "normalisesym ''B2U'' = Inr (normalize_spec ''B2U'')"
    using normalisesym_rule by blast
  then show ?thesis
    by (simp add: normalize_spec_def lower_UG_def)
qed

text \<open>
  Claim C10. The normaliser is partial: on the empty label the read of \<^verbatim>\<open>label[0]\<close>
  raises \<^verbatim>\<open>IndexError\<close>, and every non-empty label has a result.
\<close>

theorem normalisesym_partial:
  "normalisesym [] = Inl IndexError \<and> (\<forall>c rest. \<exists>r. normalisesym (c # rest) = Inr r)"
  by (simp add: normalisesym_def py_nth_def)

subsection \<open>Geometry-optimisation targets\<close>

text \<open>
  Claim C1. On the tolerance line of a GAMESS log, with \<^verbatim>\<open>geotargets\<close> not yet set, the
  block records the pair \<open>[opttol, 3 / opttol]\<close>: for \<open>OPTTOL = 1.000E-04\<close> the
  second entry is 30000, which is not 3 times the first entry.
\<close>

theorem opttol_targets_evaluated:
  "extract_opttol lit_float fresh ''          OPTTOL = 1.000E-04          RMIN   = 1.500E-03'' [] =
     Inr (fresh\<lparr>geotargets := Some [1 / 10000, 30000]\<rparr>,
          ''          OPTTOL = 1.000E-04          RMIN   = 1.500E-03'', [])
   \<and> (30000 :: real) \<noteq> 3 * (1 / 10000)"
proof -
  have toks: "split_ws ''          OPTTOL = 1.000E-04          RMIN   = 1.500E-03'' =
      [''OPTTOL'', ''='', ''1.000E-04'', ''RMIN'', ''='', ''1.500E-03'']"
    by (simp add: split_ws_def is_space_def)
  have fnd: "py_find ''          OPTTOL = 1.000E-04          RMIN   = 1.500E-03'' ''OPTTOL'' = 10"
    by (simp add: py_find_def)
  show ?thesis
    by (simp add: extract_opttol_def toks fnd py_find_def fresh_def before_parsing_def raising_def
        float_tok_def float_str_def py_nth_def lit_float_def)
qed

subsection \<open>The trigger of the molecular-orbital block\<close>

lemma find_from_at:
  "find_from sub i s = int k \<Longrightarrow> i \<le> k \<and> take (length sub) (drop (k - i) s) = sub"
proof (induction s arbitrary: i)
  case Nil
  then show ?case by (auto split: if_splits)
next
  case (Cons c cs)
  show ?case
  proof (cases "take (length sub) (c # cs) = sub")
    case True
    with Cons.prems show ?thesis by simp
  next
    case False
    with Cons.prems have "find_from sub (Suc i) cs = int k" by simp
    from Cons.IH[OF this] have le: "Suc i \<le> k" and tk: "take (length sub) (drop (k - Suc i) cs) = sub"
      by simp_all
    from le have "k - i = Suc (k - Suc i)" by arith
    with le tk show ?thesis by simp
  qed
qed

lemma py_find_at: "py_find s sub = int k \<Longrightarrow> take (length sub) (drop k s) = sub"
  using find_from_at[of sub 0 s k] by (simp add: py_find_def)

lemma find_from_first:
  "take (length sub) (drop k s) = sub \<Longrightarrow> \<forall>j<k. take (length sub) (drop j s) \<noteq> sub
   \<Longrightarrow> find_from sub i s = int (i + k)"
proof (induction s arbitrary: i k)
  case Nil
  show ?case
  proof (cases k)
    case 0
    with Nil show ?thesis by simp
  next
    case (Suc k')
    with Nil have "take (length sub) (drop 0 ([] :: string)) \<noteq> sub" by blast
    with Nil show ?thesis by simp
  qed
next
  case (Cons c cs)
  show ?case
  proof (cases k)
    case 0
    with Cons.prems show ?thesis by simp
  next
    case (Suc k')
    with Cons.prems have no: "take (length sub) (c # cs) \<noteq> sub" by force
    from Suc Cons.prems have a: "take (length sub) (drop k' cs) = sub" by simp
    have b: "\<forall>j<k'. take (length sub) (drop j cs) \<noteq> sub"
    proof (intro allI impI)
      fix j assume "j < k'"
      with Suc have "Suc j < k" by simp
      with Cons.prems(2) have "take (length sub) (drop (Suc j) (c # cs)) \<noteq> sub" by blast
      then show "take (length sub) (drop j cs) \<noteq> sub" by simp
    qed
    from Cons.IH[OF a b, of "Suc i"] no Suc show ?thesis by simp
  qed
qed

lemma py_find_first:
  "take (length sub) (drop k s) = sub \<Longrightarrow> \<forall>j<k. take (length sub) (drop j s) \<noteq> sub
   \<Longrightarrow> py_find s sub = int k"
  using find_from_first[of sub k s 0] by (simp add: py_find_def)

lemma nth_take_drop: "n < m \<Longrightarrow> j + n < length t \<Longrightarrow> take m (drop j t) ! n = t ! (j + n)"
  by simp

lemma nth_at_offset_10:
  "length pre = 10 \<Longrightarrow> j + 1 < length sub \<Longrightarrow> (pre @ sub @ post) ! (j + 11) = sub ! (j + 1)"
  by (simp add: nth_append)

lemma eigenvectors_at_10:
  assumes "length pre = 10"
  shows "py_find (pre @ ''EIGENVECTORS'' @ post) ''EIGENVECTORS'' = 10"
proof -
  let ?s = "pre @ ''EIGENVECTORS'' @ post"
  have at: "take (length ''EIGENVECTORS'') (drop 10 ?s) = ''EIGENVECTORS''"
    using assms by simp
  have none: "\<forall>j<10. take (length ''EIGENVECTORS'') (drop j ?s) \<noteq> ''EIGENVECTORS''"
  proof (intro allI impI notI)
    fix j :: nat assume j: "j < 10" and eq: "take (length ''EIGENVECTORS'') (drop j ?s) = ''EIGENVECTORS''"
    have "take (length ''EIGENVECTORS'') (drop j ?s) ! 11 = ?s ! (j + 11)"
      by (rule nth_take_drop) (use assms j in simp_all)
    also have "\<dots> = ''EIGENVECTORS'' ! (j + 1)"
      by (rule nth_at_offset_10) (use assms j in simp_all)
    finally have "''EIGENVECTORS'' ! (j + 1) = ''EIGENVECTORS'' ! 11"
      using eq by simp
    moreover from j have "j \<in> {0, 1, 2, 3, 4, 5, 6, 7, 8, 9}" by auto
    ultimately show False by auto
  qed
  from py_find_first[OF at none] show ?thesis by simp
qed

text \<open>
  Claim C2. The test of line 498 looks for \<open>EIGENVECTORS\<close> and for the misspelt
  \<open>MOLECULAR OBRITALS\<close>. No line that holds \<open>MOLECULAR ORBITALS\<close> at offset 10
  passes it, so the molecular-orbital block is not entered on such a line. Every line that
  holds \<open>EIGENVECTORS\<close> at offset 10 passes, and so does the misspelt heading.
\<close>

theorem molecular_orbitals_not_triggered:
  "(\<forall>pre post. length pre = 10 \<longrightarrow> \<not> eigenvectors_trigger (pre @ ''MOLECULAR ORBITALS'' @ post))
   \<and> (\<forall>pre post. length pre = 10 \<longrightarrow> eigenvectors_trigger (pre @ ''EIGENVECTORS'' @ post))
   \<and> eigenvectors_trigger ''          MOLECULAR OBRITALS''"
proof -
  have "\<not> eigenvectors_trigger (pre @ ''MOLECULAR ORBITALS'' @ post)" if len: "length pre = 10" for pre post
  proof
    assume "eigenvectors_trigger (pre @ ''MOLECULAR ORBITALS'' @ post)"
    then consider "py_find (pre @ ''MOLECULAR ORBITALS'' @ post) ''EIGENVECTORS'' = int 10"
      | "py_find (pre @ ''MOLECULAR ORBITALS'' @ post) ''MOLECULAR OBRITALS'' = int 10"
      by (auto simp: eigenvectors_trigger_def)
    then show False
    proof cases
      case 1
      from py_find_at[OF 1] len show False by simp
    next
      case 2
      from py_find_at[OF 2] len show False by simp
    qed
  qed
  moreover have "eigenvectors_trigger (pre @ ''EIGENVECTORS'' @ post)" if "length pre = 10" for pre post
    using eigenvectors_at_10[OF that] by (simp add: eigenvectors_trigger_def)
  moreover have "eigenvectors_trigger ''          MOLECULAR OBRITALS''"
    by (simp add: eigenvectors_trigger_def py_find_def)
  ultimately show ?thesis by blast
qed

theorem molecular_orbitals_not_triggered_witness:
  "length ''          '' = 10 \<and> \<not> eigenvectors_trigger ''          MOLECULAR ORBITALS''"
proof -
  from molecular_orbitals_not_triggered
  have "\<forall>pre post. length pre = 10 \<longrightarrow> \<not> eigenvectors_trigger (pre @ ''MOLECULAR ORBITALS'' @ post)"
    by (rule conjunct1)
  then have "length ''          '' = 10 \<longrightarrow> \<not> eigenvectors_trigger (''          '' @ ''MOLECULAR ORBITALS'' @ [])"
    by blast
  then show ?thesis by simp
qed

subsection \<open>The coupled-cluster cascade\<close>

lemma slice_ccsd_not_ccd: "slice 8 23 l = ''CCSD    ENERGY:'' \<Longrightarrow> slice 12 23 l \<noteq> ''CCD ENERGY:''"
proof -
  assume a: "slice 8 23 l = ''CCSD    ENERGY:''"
  have "slice 12 23 l = drop 4 (slice 8 23 l)"
    by (simp add: slice_def drop_take)
  with a show ?thesis by simp
qed

text \<open>The shorter cascades: the value of the last heading that is present is the one
  appended.\<close>

lemma ccsd_alone:
  assumes "slice 8 23 line1 = ''CCSD    ENERGY:''"
    and "float_tok flt (split_ws line1) 2 = Inr e1"
    and "slice 8 23 line2 \<noteq> ''CCSD[T] ENERGY:''"
  shows "extract_ccsd flt conv self line1 (line2 # rest) =
           Inr (self\<lparr>ccenergies := Some (created (ccenergies self) @ [conv e1 ''hartree'' ''eV''])\<rparr>, line2, rest)"
  using assms
  by (simp add: extract_ccsd_def raising_def next_line_def cc_append_def created_def)

lemma ccsd_bracket:
  assumes "slice 8 23 line1 = ''CCSD    ENERGY:''"
    and "float_tok flt (split_ws line1) 2 = Inr e1"
    and "slice 8 23 line2 = ''CCSD[T] ENERGY:''"
    and "float_tok flt (split_ws line2) 2 = Inr e2"
    and "slice 8 23 line3 \<noteq> ''CCSD(T) ENERGY:''"
  shows "extract_ccsd flt conv self line1 (line2 # line3 # rest) =
           Inr (self\<lparr>ccenergies := Some (created (ccenergies self) @ [conv e2 ''hartree'' ''eV''])\<rparr>, line3, rest)"
  using assms
  by (simp add: extract_ccsd_def raising_def next_line_def cc_append_def created_def)

text \<open>
  Claim C3. Let a \<open>CCSD\<close> line be followed directly by a \<open>CCSD[T]\<close> line and that one
  by a \<open>CCSD(T)\<close> line, each with the heading at offsets 8 to 22 and its energy as third
  token. Then the block appends exactly one value to \<^verbatim>\<open>ccenergies\<close>, the converted
  \<open>CCSD(T)\<close> energy, and leaves the \<open>CCSD(T)\<close> line as current line; the values of
  the two earlier lines are overwritten and never stored. The \<open>CCD\<close> block, the only
  other one that writes \<^verbatim>\<open>ccenergies\<close>, does nothing on the \<open>CCSD\<close> line.
\<close>

theorem ccsd_cascade:
  assumes "slice 8 23 line1 = ''CCSD    ENERGY:''"
    and "slice 8 23 line2 = ''CCSD[T] ENERGY:''"
    and "slice 8 23 line3 = ''CCSD(T) ENERGY:''"
    and "float_tok flt (split_ws line1) 2 = Inr e1"
    and "float_tok flt (split_ws line2) 2 = Inr e2"
    and "float_tok flt (split_ws line3) 2 = Inr e3"
  shows "extract_ccsd flt conv self line1 (line2 # line3 # rest) =
           Inr (self\<lparr>ccenergies := Some (created (ccenergies self) @ [conv e3 ''hartree'' ''eV''])\<rparr>, line3, rest)
         \<and> extract_ccd flt conv self line1 (line2 # line3 # rest) = Inr (self, line1, line2 # line3 # rest)"
  using assms slice_ccsd_not_ccd[OF assms(1)]
  by (simp add: extract_ccsd_def extract_ccd_def raising_def next_line_def cc_append_def created_def)

theorem ccsd_cascade_witness:
  "slice 8 23 ''        CCSD    ENERGY:     -76.2402'' = ''CCSD    ENERGY:''
   \<and> slice 8 23 ''        CCSD[T] ENERGY:     -76.2411'' = ''CCSD[T] ENERGY:''
   \<and> slice 8 23 ''        CCSD(T) ENERGY:     -76.2410'' = ''CCSD(T) ENERGY:''
   \<and> float_tok lit_float (split_ws ''        CCSD    ENERGY:     -76.2402'') 2 = Inr (- 762402 / 10000)
   \<and> float_tok lit_float (split_ws ''        CCSD[T] ENERGY:     -76.2411'') 2 = Inr (- 762411 / 10000)
   \<and> float_tok lit_float (split_ws ''        CCSD(T) ENERGY:     -76.2410'') 2 = Inr (- 762410 / 10000)
   \<and> extract_ccsd lit_float unit_conv fresh ''        CCSD    ENERGY:     -76.2402''
        [''        CCSD[T] ENERGY:     -76.2411'', ''        CCSD(T) ENERGY:     -76.2410'', ''''] =
       Inr (fresh\<lparr>ccenergies := Some [- 762410 / 10000 * 27.2113845]\<rparr>,
            ''        CCSD(T) ENERGY:     -76.2410'', [''''])"
proof -
  have s1: "slice 8 23 ''        CCSD    ENERGY:     -76.2402'' = ''CCSD    ENERGY:''"
    and s2: "slice 8 23 ''        CCSD[T] ENERGY:     -76.2411'' = ''CCSD[T] ENERGY:''"
    and s3: "slice 8 23 ''        CCSD(T) ENERGY:     -76.2410'' = ''CCSD(T) ENERGY:''"
    by (simp_all add: slice_def)
  have f1: "float_tok lit_float (split_ws ''        CCSD    ENERGY:     -76.2402'') 2 = Inr (- 762402 / 10000)"
    and f2: "float_tok lit_float (split_ws ''        CCSD[T] ENERGY:     -76.2411'') 2 = Inr (- 762411 / 10000)"
    and f3: "float_tok lit_float (split_ws ''        CCSD(T) ENERGY:     -76.2410'') 2 = Inr (- 762410 / 10000)"
    by (simp_all add: split_ws_def is_space_def float_tok_def float_str_def py_nth_def lit_float_def)
  from ccsd_cascade[OF s1 s2 s3 f1 f2 f3, of unit_conv fresh "[[]]"]
  have "extract_ccsd lit_float unit_conv fresh ''        CCSD    ENERGY:     -76.2402''
        [''        CCSD[T] ENERGY:     -76.2411'', ''        CCSD(T) ENERGY:     -76.2410'', ''''] =
       Inr (fresh\<lparr>ccenergies := Some [- 762410 / 10000 * 27.2113845]\<rparr>,
            ''        CCSD(T) ENERGY:     -76.2410'', [''''])"
    by (simp add: unit_conv_def created_def fresh_def before_parsing_def)
  with s1 s2 s3 f1 f2 f3 show ?thesis by blast
qed

subsection \<open>Excitation contributions\<close>

lemma cis_row_stored: "cis_row flt ham line = Inr c \<Longrightarrow> row_stored flt ham line c"
  by (auto simp: cis_row_def row_stored_def py_nth_def Let_def take_Suc hd_conv_nth
      split: sum.splits if_splits list.splits)

lemma cis_rows_stored:
  "cis_rows flt ham acc line inp = Inr (contribs, line', inp') \<Longrightarrow>
     \<exists>rows new. line # inp = rows @ line' # inp' \<and> contribs = acc @ new
        \<and> list_all2 (row_stored flt ham) rows new"
proof (induction inp arbitrary: acc line)
  case Nil
  then show ?case
    by (subst (asm) cis_rows.simps) (auto split: sum.splits if_splits intro!: exI[of _ "[]"])
next
  case (Cons l rest)
  show ?case
  proof (cases "py_nth (strip line) 0 = Inr CHR ''-''")
    case True
    with Cons.prems show ?thesis
      by (subst (asm) cis_rows.simps) (auto split: sum.splits if_splits intro!: exI[of _ "[]"])
  next
    case False
    with Cons.prems cis_rows.simps[of flt ham acc line "l # rest"]
    obtain c where c: "cis_row flt ham line = Inr c"
      and rec: "cis_rows flt ham (acc @ [c]) l rest = Inr (contribs, line', inp')"
      by (auto split: sum.splits if_splits)
    from Cons.IH[OF rec] obtain rows new where
      r: "l # rest = rows @ line' # inp'" "contribs = (acc @ [c]) @ new"
         "list_all2 (row_stored flt ham) rows new"
      by blast
    have "line # l # rest = (line # rows) @ line' # inp'" using r(1) by simp
    moreover have "contribs = acc @ (c # new)" using r(2) by simp
    moreover have "list_all2 (row_stored flt ham) (line # rows) (c # new)"
      using r(3) cis_row_stored[OF c] by simp
    ultimately show ?thesis by blast
  qed
qed

lemma skip_lines_drop:
  "skip_lines (Suc n) line inp = Inr (line', inp') \<Longrightarrow> drop n inp = line' # inp'"
proof (induction n arbitrary: line inp)
  case 0
  then show ?case by (cases inp) simp_all
next
  case (Suc n)
  then show ?case by (cases inp) simp_all
qed

text \<open>
  Claim C7. When the excited-state block runs to its end, the list it appends to
  \<^verbatim>\<open>etsecs\<close> holds one contribution for each row between the five skipped lines and the
  closing row of hyphens, in order, and each is what \<open>row_stored\<close> describes: under the
  Hamiltonian type \<open>saps\<close> the coefficient is the parsed value divided by the square root
  of 2, under \<open>dets\<close> or \<open>none\<close> it is the parsed value itself, and the spin channel is 1
  only under \<open>dets\<close> on a row whose leading token is \<open>BETA\<close>, otherwise 0.
\<close>

theorem etsecs_contributions:
  assumes "slice 1 14 line = ''EXCITED STATE''"
    and "extract_etsecs flt self line inputfile = Inr (self', line', inputfile')"
  shows "\<exists>rows CIScontribs.
           drop 5 inputfile = rows @ line' # inputfile'
           \<and> etsecs self' = Some (created (etsecs self) @ [CIScontribs])
           \<and> list_all2 (row_stored flt (cihamtyp self)) rows CIScontribs"
proof -
  from assms obtain line1 inp1 C where
    sk: "skip_lines 6 line inputfile = Inr (line1, inp1)"
    and rows: "cis_rows flt (cihamtyp self) [] line1 inp1 = Inr (C, line', inputfile')"
    and ets: "etsecs self' = Some (created (etsecs self) @ [C])"
    by (auto simp: extract_etsecs_def raising_def Let_def split: sum.splits if_splits prod.splits)
  from sk have "drop 5 inputfile = line1 # inp1"
    using skip_lines_drop[of 5 line inputfile line1 inp1] by (simp add: eval_nat_numeral)
  moreover from cis_rows_stored[OF rows] obtain rs new where
    "line1 # inp1 = rs @ line' # inputfile'" "C = new" "list_all2 (row_stored flt (cihamtyp self)) rs new"
    by auto
  ultimately show ?thesis using ets by auto
qed

theorem etsecs_contributions_witness:
  "slice 1 14 '' EXCITED STATE   1  ENERGY=     -76.2402  S = 0.0  SPACE SYM = A'' = ''EXCITED STATE''
   \<and> extract_etsecs lit_float (fresh\<lparr>cihamtyp := ''saps''\<rparr>)
        '' EXCITED STATE   1  ENERGY=     -76.2402  S = 0.0  SPACE SYM = A''
        ['''', ''    --------'', ''    EXCITATION'', ''    --------'', ''    FROM   TO   COEFFICIENT'',
         ''       4    6    0.5'', ''       5    7    -0.25'', ''    --------''] =
       Inr (fresh\<lparr>cihamtyp := ''saps'',
                  etsecs := Some [[((3, 0), (5, 0), (1 / 2) / sqrt 2), ((4, 0), (6, 0), (- 1 / 4) / sqrt 2)]],
                  etsyms := Some [''Singlet-A'']\<rparr>,
            ''    --------'', [])
   \<and> (\<exists>rows CIScontribs.
         drop 5 ['''', ''    --------'', ''    EXCITATION'', ''    --------'', ''    FROM   TO   COEFFICIENT'',
                 ''       4    6    0.5'', ''       5    7    -0.25'', ''    --------'']
           = rows @ [''    --------'']
         \<and> Some [[((3, 0), (5, 0), (1 / 2) / sqrt 2), ((4, 0), (6, 0), (- 1 / 4) / sqrt 2)]]
             = Some ([] @ [CIScontribs])
         \<and> list_all2 (row_stored lit_float ''saps'') rows CIScontribs)"
proof -
  let ?L = "'' EXCITED STATE   1  ENERGY=     -76.2402  S = 0.0  SPACE SYM = A''"
  have trig: "slice 1 14 ?L = ''EXCITED STATE''"
    by (simp add: slice_def)
  have toks: "split_ws ?L = [''EXCITED'', ''STATE'', ''1'', ''ENERGY='', ''-76.2402'', ''S'', ''='', ''0.0'',
       ''SPACE'', ''SYM'', ''='', ''A'']"
    by (simp add: split_ws_def is_space_def)
  have r1: "cis_row lit_float ''saps'' ''       4    6    0.5'' = Inr ((3, 0), (5, 0), (1 / 2) / sqrt 2)"
    by (simp add: cis_row_def split_ws_def is_space_def int_tok_def float_tok_def float_str_def py_nth_def
        py_int_def strip_def lstrip_def rstrip_def is_digit_def digit_val_def lit_float_def Let_def)
  have r2: "cis_row lit_float ''saps'' ''       5    7    -0.25'' = Inr ((4, 0), (6, 0), (- 1 / 4) / sqrt 2)"
    by (simp add: cis_row_def split_ws_def is_space_def int_tok_def float_tok_def float_str_def py_nth_def
        py_int_def strip_def lstrip_def rstrip_def is_digit_def digit_val_def lit_float_def Let_def)
  have s1: "py_nth (strip ''       4    6    0.5'') 0 = Inr CHR ''4''"
    and s2: "py_nth (strip ''       5    7    -0.25'') 0 = Inr CHR ''5''"
    and s3: "py_nth (strip ''    --------'') 0 = Inr CHR ''-''"
    by (simp_all add: py_nth_def strip_def lstrip_def rstrip_def is_space_def)
  have rows: "cis_rows lit_float ''saps'' [] ''       4    6    0.5'' [''       5    7    -0.25'', ''    --------'']
      = Inr ([((3, 0), (5, 0), (1 / 2) / sqrt 2), ((4, 0), (6, 0), (- 1 / 4) / sqrt 2)], ''    --------'', [])"
    by (simp add: cis_rows.simps r1 r2 s1 s2 s3)
  have t2: "int_tok (split_ws ?L) 2 = Inr 1"
    by (simp add: toks int_tok_def py_nth_def py_int_def strip_def lstrip_def rstrip_def is_space_def
        is_digit_def digit_val_def Let_def)
  have t7: "float_tok lit_float (split_ws ?L) 7 = Inr 0"
    by (simp add: toks float_tok_def float_str_def py_nth_def lit_float_def)
  have tl: "py_nth (split_ws ?L) (- 1) = Inr ''A''"
    by (simp add: toks py_nth_def)
  have sk: "skip_lines 6 ?L
        ['''', ''    --------'', ''    EXCITATION'', ''    --------'', ''    FROM   TO   COEFFICIENT'',
         ''       4    6    0.5'', ''       5    7    -0.25'', ''    --------''] =
       Inr (''       4    6    0.5'', [''       5    7    -0.25'', ''    --------''])"
    by (simp add: eval_nat_numeral)
  have run: "extract_etsecs lit_float (fresh\<lparr>cihamtyp := ''saps''\<rparr>) ?L
        ['''', ''    --------'', ''    EXCITATION'', ''    --------'', ''    FROM   TO   COEFFICIENT'',
         ''       4    6    0.5'', ''       5    7    -0.25'', ''    --------''] =
       Inr (fresh\<lparr>cihamtyp := ''saps'',
                  etsecs := Some [[((3, 0), (5, 0), (1 / 2) / sqrt 2), ((4, 0), (6, 0), (- 1 / 4) / sqrt 2)]],
                  etsyms := Some [''Singlet-A'']\<rparr>,
            ''    --------'', [])"
    unfolding extract_etsecs_def
    by (simp only: trig t2 t7 tl sk if_True Let_def raising_def sum.case prod.case)
       (simp add: rows py_trunc_def created_def fresh_def before_parsing_def)
  from etsecs_contributions[OF trig run] show ?thesis
    using trig run by (simp add: created_def fresh_def before_parsing_def)
qed

subsection \<open>A truncated SCF table\<close>

lemma scf_table_exhausted:
  "strip line \<noteq> [] \<Longrightarrow> scf_row_ok flt line \<Longrightarrow> \<forall>l\<in>set inp. strip l \<noteq> [] \<and> scf_row_ok flt l
   \<Longrightarrow> scf_table flt vals line inp = Inl StopIteration"
proof (induction inp arbitrary: vals line)
  case Nil
  then show ?case
    by (subst scf_table.simps) (auto simp: scf_row_ok_def split: sum.splits error.splits)
next
  case (Cons l rest)
  have step: "scf_table flt v l rest = Inl StopIteration" for v
    using Cons.IH[of l v] Cons.prems(3) by simp
  from Cons.prems(1,2) show ?case
    by (subst scf_table.simps) (auto simp: scf_row_ok_def step split: sum.splits error.splits)
qed

text \<open>Whatever makes the block fail, the entries of \<^verbatim>\<open>scfvalues\<close> are those it held
  before: the only \<^verbatim>\<open>append\<close> to it is the last statement of the block.\<close>

lemma scf_failure_keeps_entries:
  "extract_scf flt self line inputfile = Inl (e, self')
   \<Longrightarrow> created (scfvalues self') = created (scfvalues self)"
  by (auto simp: extract_scf_def raising_def Let_def created_def
      split: if_splits sum.splits prod.splits option.splits)

text \<open>
  Claim C9. Let the SCF block be triggered and let the scan for the table header succeed
  with a threshold. If every line that is left after the header is a row the loop can pass
  and none is blank, so that the input ends inside the iteration table, then the block
  fails with \<^verbatim>\<open>StopIteration\<close>. At the failure \<^verbatim>\<open>scfvalues\<close> holds the entries it held
  before the block (none, if the block had to create the attribute): the rows read so far
  are in the local list \<^verbatim>\<open>values\<close> only and are lost with it.
\<close>

theorem scf_truncated_table:
  assumes "py_suffix 15 (rstrip line) = ''SCF CALCULATION''"
    and "scf_header flt None line1 inputfile1 = Inr (Some t, line2, table)"
    and "\<forall>l\<in>set table. strip l \<noteq> [] \<and> scf_row_ok flt l"
  shows "\<exists>self'. extract_scf flt self line (line1 # inputfile1) = Inl (StopIteration, self')
           \<and> scfvalues self' = Some (created (scfvalues self))"
proof (cases table)
  case Nil
  with assms(1,2) show ?thesis
    by (simp add: extract_scf_def raising_def next_line_def Let_def)
next
  case (Cons l rest)
  with assms(3) have "scf_table flt [] l rest = Inl StopIteration"
    by (intro scf_table_exhausted) simp_all
  with Cons assms(1,2) show ?thesis
    by (simp add: extract_scf_def raising_def next_line_def Let_def)
qed

theorem scf_truncated_table_witness:
  "py_suffix 15 (rstrip ''          RHF SCF CALCULATION'') = ''SCF CALCULATION''
   \<and> scf_header lit_float None ''     DENSITY MATRIX CONV=  1.00E-05''
        ['' ITER EX DEM   TOTAL ENERGY   E CHANGE   DENSITY CHANGE'',
         ''   1  0  0   -76.2402   -76.2402   0.5'',
         '' * * *   INITIATING DIIS PROCEDURE   * * *'',
         ''   2  1  0   -76.2411   -0.25   0.25'']
       = Inr (Some (1 / 100000), '' ITER EX DEM   TOTAL ENERGY   E CHANGE   DENSITY CHANGE'',
              [''   1  0  0   -76.2402   -76.2402   0.5'',
               '' * * *   INITIATING DIIS PROCEDURE   * * *'',
               ''   2  1  0   -76.2411   -0.25   0.25''])
   \<and> list_all (\<lambda>l. strip l \<noteq> [] \<and> scf_row_ok lit_float l)
        [''   1  0  0   -76.2402   -76.2402   0.5'',
         '' * * *   INITIATING DIIS PROCEDURE   * * *'',
         ''   2  1  0   -76.2411   -0.25   0.25'']
   \<and> (\<exists>self'. extract_scf lit_float fresh ''          RHF SCF CALCULATION''
          [''     DENSITY MATRIX CONV=  1.00E-05'',
           '' ITER EX DEM   TOTAL ENERGY   E CHANGE   DENSITY CHANGE'',
           ''   1  0  0   -76.2402   -76.2402   0.5'',
           '' * * *   INITIATING DIIS PROCEDURE   * * *'',
           ''   2  1  0   -76.2411   -0.25   0.25''] = Inl (StopIteration, self')
        \<and> scfvalues self' = Some [])"
proof -
  let ?r1 = "''   1  0  0   -76.2402   -76.2402   0.5''"
  let ?b = "'' * * *   INITIATING DIIS PROCEDURE   * * *''"
  let ?r2 = "''   2  1  0   -76.2411   -0.25   0.25''"
  let ?h = "'' ITER EX DEM   TOTAL ENERGY   E CHANGE   DENSITY CHANGE''"
  let ?d = "''     DENSITY MATRIX CONV=  1.00E-05''"
  have trig: "py_suffix 15 (rstrip ''          RHF SCF CALCULATION'') = ''SCF CALCULATION''"
    by (simp add: py_suffix_def rstrip_def is_space_def)
  have d1: "py_find ?d ''ITER EX'' < 0" "py_find ?d ''DENSITY CONV='' < 0"
    "py_find ?d ''DENSITY MATRIX CONV='' = 5"
    by (simp_all add: py_find_def)
  have d2: "scf_target_of lit_float ?d = Inr (1 / 100000)"
    by (simp add: scf_target_of_def d1 split_ws_def is_space_def float_tok_def float_str_def
        py_nth_def lit_float_def)
  have h1: "\<not> py_find ?h ''ITER EX'' < 0"
    by (simp add: py_find_def)
  have hdr: "scf_header lit_float None ?d [?h, ?r1, ?b, ?r2] = Inr (Some (1 / 100000), ?h, [?r1, ?b, ?r2])"
    by (simp add: scf_header.simps[of _ _ ?d] scf_header.simps[of _ _ ?h] d1 d2 h1)
  have ok1: "strip ?r1 \<noteq> [] \<and> scf_row_ok lit_float ?r1"
    by (simp add: strip_def lstrip_def rstrip_def is_space_def scf_row_ok_def slice_def py_int_def
        is_digit_def digit_val_def Let_def split_ws_def float_tok_def float_str_def py_nth_def lit_float_def)
  have okb: "strip ?b \<noteq> [] \<and> scf_row_ok lit_float ?b"
    by (simp add: strip_def lstrip_def rstrip_def is_space_def scf_row_ok_def slice_def py_int_def
        is_digit_def digit_val_def Let_def)
  have ok2: "strip ?r2 \<noteq> [] \<and> scf_row_ok lit_float ?r2"
    by (simp add: strip_def lstrip_def rstrip_def is_space_def scf_row_ok_def slice_def py_int_def
        is_digit_def digit_val_def Let_def split_ws_def float_tok_def float_str_def py_nth_def lit_float_def)
  have rows: "\<forall>l\<in>set [?r1, ?b, ?r2]. strip l \<noteq> [] \<and> scf_row_ok lit_float l"
    using ok1 okb ok2 by simp
  from scf_truncated_table[OF trig hdr rows, of fresh]
  have "\<exists>self'. extract_scf lit_float fresh ''          RHF SCF CALCULATION'' [?d, ?h, ?r1, ?b, ?r2]
            = Inl (StopIteration, self') \<and> scfvalues self' = Some []"
    by (simp add: created_def fresh_def before_parsing_def)
  with trig hdr ok1 okb ok2 show ?thesis by simp
qed

subsection \<open>Exclusion of the rotation and translation modes\<close>







subsection \<open>The geometry sequence\<close>

lemma stdorient_first:
  assumes "slice 1 29 line = ''COORDINATES OF ALL ATOMS ARE''" "\<not> geooptfinished self"
    and "firststdorient self"
    and "extract_stdorient flt self line inputfile = Inr (self', line', inputfile')"
  shows "\<exists>l1 l2 l3 rest coords. inputfile = l1 # l2 # l3 # rest
           \<and> std_rows flt [] l3 rest = Inr (coords, line', inputfile')
           \<and> atomcoords self' = Some [coords] \<and> \<not> firststdorient self'"
  using assms
  by (auto simp: extract_stdorient_def raising_def next_line_def Let_def
      split: list.splits sum.splits prod.splits option.splits)

lemma inputorient_appends:
  assumes "slice 11 50 line = ''ATOMIC                      COORDINATES''"
    and "extract_inputorient flt conv self line inputfile = Inr (self', line', inputfile')"
  shows "\<exists>coords. atomcoords self' = Some (created (atomcoords self) @ [coords])
           \<and> firststdorient self' = firststdorient self"
  using assms
  by (auto simp: extract_inputorient_def raising_def next_line_def Let_def
      split: list.splits sum.splits prod.splits option.splits if_splits)

lemma inputorient_flag:
  "firststdorient (outcome_state (extract_inputorient flt conv self line inputfile)) = firststdorient self"
  by (auto simp: outcome_state_def extract_inputorient_def raising_def next_line_def Let_def
      split: list.splits sum.splits prod.splits option.splits)

lemma inputorient_grows:
  "extract_inputorient flt conv self line inputfile = Inr (self', line', inputfile')
   \<Longrightarrow> \<exists>new. created (atomcoords self') = created (atomcoords self) @ new"
  by (auto simp: extract_inputorient_def raising_def next_line_def Let_def created_def
      split: list.splits sum.splits prod.splits option.splits if_splits)

lemma stdorient_flag:
  "\<not> firststdorient self
   \<Longrightarrow> \<not> firststdorient (outcome_state (extract_stdorient flt self line inputfile))"
  by (auto simp: outcome_state_def extract_stdorient_def raising_def next_line_def Let_def
      split: list.splits sum.splits prod.splits option.splits)

lemma stdorient_grows:
  "\<not> firststdorient self \<Longrightarrow> extract_stdorient flt self line inputfile = Inr (self', line', inputfile')
   \<Longrightarrow> \<exists>new. created (atomcoords self') = created (atomcoords self) @ new"
  by (auto simp: extract_stdorient_def raising_def next_line_def Let_def created_def
      split: list.splits sum.splits prod.splits option.splits if_splits)

lemma geometry_flag:
  assumes "\<not> firststdorient self"
  shows "\<not> firststdorient (outcome_state (extract_geometry flt conv self line inputfile))"
proof (cases "extract_inputorient flt conv self line inputfile")
  case (Inl a)
  with inputorient_flag[of flt conv self line inputfile] assms show ?thesis
    by (simp add: extract_geometry_def then_block_def)
next
  case (Inr b)
  obtain s1 l1 i1 where b: "b = (s1, l1, i1)" by (cases b)
  with Inr inputorient_flag[of flt conv self line inputfile] assms
  have s1: "\<not> firststdorient s1" by (simp add: outcome_state_def)
  obtain s2 where eq: "extract_equilibrium s1 l1 i1 = Inr (s2, l1, i1)"
    and s2: "firststdorient s2 = firststdorient s1"
    by (cases "slice 12 40 l1 = ''EQUILIBRIUM GEOMETRY LOCATED''")
      (simp_all add: extract_equilibrium_def)
  from stdorient_flag[of s2 flt l1 i1] s1 s2 Inr b eq show ?thesis
    by (simp add: extract_geometry_def then_block_def)
qed

lemma geometry_grows:
  assumes "\<not> firststdorient self"
    and "extract_geometry flt conv self line inputfile = Inr (self', line', inputfile')"
  shows "\<exists>new. created (atomcoords self') = created (atomcoords self) @ new"
proof -
  from assms(2) obtain s1 l1 i1 where
    a: "extract_inputorient flt conv self line inputfile = Inr (s1, l1, i1)"
    by (auto simp: extract_geometry_def then_block_def split: sum.splits)
  obtain s2 where eq: "extract_equilibrium s1 l1 i1 = Inr (s2, l1, i1)"
    and s2: "firststdorient s2 = firststdorient s1" "atomcoords s2 = atomcoords s1"
    by (cases "slice 12 40 l1 = ''EQUILIBRIUM GEOMETRY LOCATED''")
      (simp_all add: extract_equilibrium_def)
  from assms(2) a eq have c: "extract_stdorient flt s2 l1 i1 = Inr (self', line', inputfile')"
    by (simp add: extract_geometry_def then_block_def)
  from inputorient_flag[of flt conv self line inputfile] a assms(1)
  have "\<not> firststdorient s1" by (simp add: outcome_state_def)
  with s2 have "\<not> firststdorient s2" by simp
  from stdorient_grows[OF this c] obtain n2 where
    "created (atomcoords self') = created (atomcoords s2) @ n2" by blast
  moreover from inputorient_grows[OF a] obtain n1 where
    "created (atomcoords s1) = created (atomcoords self) @ n1" by blast
  ultimately show ?thesis using s2 by simp
qed

text \<open>
  Claim C8, as amended. (1) When a standard-orientation block is captured while the flag
  \<^verbatim>\<open>firststdorient\<close> is still set, the geometry sequence becomes exactly the geometry
  read by that block, so nothing captured before it remains, and the flag is cleared.
  (2) Once cleared the flag stays cleared through the geometry blocks, the only code that
  writes it, whether they return or raise: the discard cannot happen again. (3) From then
  on these blocks only append to the sequence, and (4) an input-orientation block always
  appends the geometry it reads, so one that comes after the discard is kept.
\<close>

theorem geometry_discard_once:
  "(\<forall>self line inputfile self' line' inputfile'.
      slice 1 29 line = ''COORDINATES OF ALL ATOMS ARE'' \<and> \<not> geooptfinished self
      \<and> firststdorient self
      \<and> extract_stdorient flt self line inputfile = Inr (self', line', inputfile')
      \<longrightarrow> (\<exists>l1 l2 l3 rest coords. inputfile = l1 # l2 # l3 # rest
             \<and> std_rows flt [] l3 rest = Inr (coords, line', inputfile')
             \<and> atomcoords self' = Some [coords] \<and> \<not> firststdorient self'))
   \<and> (\<forall>self line inputfile.
        \<not> firststdorient self
        \<longrightarrow> \<not> firststdorient (outcome_state (extract_geometry flt conv self line inputfile)))
   \<and> (\<forall>self line inputfile self' line' inputfile'.
        \<not> firststdorient self
        \<and> extract_geometry flt conv self line inputfile = Inr (self', line', inputfile')
        \<longrightarrow> (\<exists>new. created (atomcoords self') = created (atomcoords self) @ new))
   \<and> (\<forall>self line inputfile self' line' inputfile'.
        slice 11 50 line = ''ATOMIC                      COORDINATES''
        \<and> extract_inputorient flt conv self line inputfile = Inr (self', line', inputfile')
        \<longrightarrow> (\<exists>coords. atomcoords self' = Some (created (atomcoords self) @ [coords])
               \<and> firststdorient self' = firststdorient self))"
  using stdorient_first geometry_flag geometry_grows inputorient_appends
  by (intro conjI allI impI; (elim conjE)?) blast+

lemma demo_input_trigger:
  "slice 11 50 '' ATOM      ATOMIC                      COORDINATES (BOHR)''
     = ''ATOMIC                      COORDINATES''"
  "slice 11 50 '' COORDINATES OF ALL ATOMS ARE (ANGS)'' \<noteq> ''ATOMIC                      COORDINATES''"
  "slice 1 29 '' COORDINATES OF ALL ATOMS ARE (ANGS)'' = ''COORDINATES OF ALL ATOMS ARE''"
  "slice 1 29 [] \<noteq> ''COORDINATES OF ALL ATOMS ARE''"
  "slice 12 40 [] \<noteq> ''EQUILIBRIUM GEOMETRY LOCATED''"
  "slice 11 50 [] \<noteq> ''ATOMIC                      COORDINATES''"
  by (simp_all add: slice_def)

lemma demo_input_rows:
  "input_rows lit_float unit_conv [] [] '' C   6.0   0.0   0.0   1.0'' [[]]
     = Inr ([[0, 0, 0.529177]], [6], [], [])"
  "input_rows lit_float unit_conv [] [] '' C   6.0   0.0   0.0   2.0'' [[]]
     = Inr ([[0, 0, 1.058354]], [6], [], [])"
  by (simp_all add: input_rows.simps strip_def lstrip_def rstrip_def is_space_def split_ws_def slice_def
      float_tok_def float_str_def py_nth_def lit_float_def unit_conv_def py_round_def)

lemma demo_std_rows:
  "std_rows lit_float [] '' C   6.0   0.0   0.0   0.5'' [[]] = Inr ([[0, 0, 1 / 2]], [], [])"
  "std_rows lit_float [] '' C   6.0   0.0   0.0   1.0'' [[]] = Inr ([[0, 0, 1]], [], [])"
  by (simp_all add: std_rows.simps strip_def lstrip_def rstrip_def is_space_def split_ws_def slice_def
      lit_float_def)

lemma demo_input_block:
  "atomcoords self = Some geoms \<Longrightarrow>
   extract_geometry lit_float unit_conv self '' ATOM      ATOMIC                      COORDINATES (BOHR)''
     [''           CHARGE         X         Y         Z'', '' C   6.0   0.0   0.0   2.0'', []]
   = Inr (self\<lparr>atomnos := Some [6], atomcoords := Some (geoms @ [[[0, 0, 1.058354]]])\<rparr>, [], [])"
  by (simp add: extract_geometry_def then_block_def extract_inputorient_def extract_equilibrium_def
      extract_stdorient_def slice_def demo_input_rows raising_def next_line_def created_def)

lemma demo_std_block:
  "\<not> geooptfinished self \<Longrightarrow> \<not> firststdorient self \<Longrightarrow> atomcoords self = Some geoms \<Longrightarrow>
   extract_geometry lit_float unit_conv self '' COORDINATES OF ALL ATOMS ARE (ANGS)''
     [''   ATOM   CHARGE       X         Y         Z'', '' ----------'', '' C   6.0   0.0   0.0   1.0'', []]
   = Inr (self\<lparr>atomcoords := Some (geoms @ [[[0, 0, 1]]])\<rparr>, [], [])"
  by (simp add: extract_geometry_def then_block_def extract_inputorient_def extract_equilibrium_def
      extract_stdorient_def slice_def demo_std_rows raising_def next_line_def)

text \<open>
  Claim C8 as it is stated fails in its last part. In the run below an input-orientation
  block, a standard-orientation block, a second input-orientation block and a second
  standard-orientation block are handed to the geometry blocks in this order. The first
  standard-orientation block discards the placeholder; the geometry of the second
  input-orientation block, \<open>[[0, 0, 1.058354]]\<close>, is appended and stays in the sequence
  ahead of the standard-orientation geometry captured after it.
\<close>

theorem geometry_later_input_retained:
  "extract_geometry lit_float unit_conv fresh '' ATOM      ATOMIC                      COORDINATES (BOHR)''
     [''           CHARGE         X         Y         Z'', '' C   6.0   0.0   0.0   1.0'', []]
     = Inr (fresh\<lparr>atomnos := Some [6], atomcoords := Some [[[0, 0, 0.529177]]]\<rparr>, [], [])
   \<and> extract_geometry lit_float unit_conv
       (fresh\<lparr>atomnos := Some [6], atomcoords := Some [[[0, 0, 0.529177]]]\<rparr>)
       '' COORDINATES OF ALL ATOMS ARE (ANGS)''
       [''   ATOM   CHARGE       X         Y         Z'', '' ----------'', '' C   6.0   0.0   0.0   0.5'', []]
     = Inr (fresh\<lparr>firststdorient := False, atomnos := Some [6], atomcoords := Some [[[0, 0, 1 / 2]]]\<rparr>,
            [], [])
   \<and> extract_geometry lit_float unit_conv
       (fresh\<lparr>firststdorient := False, atomnos := Some [6], atomcoords := Some [[[0, 0, 1 / 2]]]\<rparr>)
       '' ATOM      ATOMIC                      COORDINATES (BOHR)''
       [''           CHARGE         X         Y         Z'', '' C   6.0   0.0   0.0   2.0'', []]
     = Inr (fresh\<lparr>firststdorient := False, atomnos := Some [6],
                  atomcoords := Some [[[0, 0, 1 / 2]], [[0, 0, 1.058354]]]\<rparr>, [], [])
   \<and> extract_geometry lit_float unit_conv
       (fresh\<lparr>firststdorient := False, atomnos := Some [6],
              atomcoords := Some [[[0, 0, 1 / 2]], [[0, 0, 1.058354]]]\<rparr>)
       '' COORDINATES OF ALL ATOMS ARE (ANGS)''
       [''   ATOM   CHARGE       X         Y         Z'', '' ----------'', '' C   6.0   0.0   0.0   1.0'', []]
     = Inr (fresh\<lparr>firststdorient := False, atomnos := Some [6],
                  atomcoords := Some [[[0, 0, 1 / 2]], [[0, 0, 1.058354]], [[0, 0, 1]]]\<rparr>, [], [])"
proof -
  have 1: "extract_geometry lit_float unit_conv fresh
       '' ATOM      ATOMIC                      COORDINATES (BOHR)''
       [''           CHARGE         X         Y         Z'', '' C   6.0   0.0   0.0   1.0'', []]
     = Inr (fresh\<lparr>atomnos := Some [6], atomcoords := Some [[[0, 0, 0.529177]]]\<rparr>, [], [])"
    by (simp add: extract_geometry_def then_block_def extract_inputorient_def extract_equilibrium_def
        extract_stdorient_def slice_def demo_input_rows raising_def next_line_def created_def
        fresh_def before_parsing_def)
  have 2: "extract_geometry lit_float unit_conv
       (fresh\<lparr>atomnos := Some [6], atomcoords := Some [[[0, 0, 0.529177]]]\<rparr>)
       '' COORDINATES OF ALL ATOMS ARE (ANGS)''
       [''   ATOM   CHARGE       X         Y         Z'', '' ----------'', '' C   6.0   0.0   0.0   0.5'', []]
     = Inr (fresh\<lparr>firststdorient := False, atomnos := Some [6], atomcoords := Some [[[0, 0, 1 / 2]]]\<rparr>,
            [], [])"
    by (simp add: extract_geometry_def then_block_def extract_inputorient_def extract_equilibrium_def
        extract_stdorient_def slice_def demo_std_rows raising_def next_line_def
        fresh_def before_parsing_def)
  have 3: "extract_geometry lit_float unit_conv
       (fresh\<lparr>firststdorient := False, atomnos := Some [6], atomcoords := Some [[[0, 0, 1 / 2]]]\<rparr>)
       '' ATOM      ATOMIC                      COORDINATES (BOHR)''
       [''           CHARGE         X         Y         Z'', '' C   6.0   0.0   0.0   2.0'', []]
     = Inr (fresh\<lparr>firststdorient := False, atomnos := Some [6],
                  atomcoords := Some [[[0, 0, 1 / 2]], [[0, 0, 1.058354]]]\<rparr>, [], [])"
    by (subst demo_input_block[where geoms = "[[[0, 0, 1 / 2]]]"]) simp_all
  have 4: "extract_geometry lit_float unit_conv
       (fresh\<lparr>firststdorient := False, atomnos := Some [6],
              atomcoords := Some [[[0, 0, 1 / 2]], [[0, 0, 1.058354]]]\<rparr>)
       '' COORDINATES OF ALL ATOMS ARE (ANGS)''
       [''   ATOM   CHARGE       X         Y         Z'', '' ----------'', '' C   6.0   0.0   0.0   1.0'', []]
     = Inr (fresh\<lparr>firststdorient := False, atomnos := Some [6],
                  atomcoords := Some [[[0, 0, 1 / 2]], [[0, 0, 1.058354]], [[0, 0, 1]]]\<rparr>, [], [])"
    by (subst demo_std_block[where geoms = "[[[0, 0, 1 / 2]], [[0, 0, 1.058354]]]"])
      (simp_all add: fresh_def before_parsing_def)
  from 1 2 3 4 show ?thesis by (intro conjI)
qed

theorem geometry_discard_once_witness:
  "slice 1 29 '' COORDINATES OF ALL ATOMS ARE (ANGS)'' = ''COORDINATES OF ALL ATOMS ARE''
   \<and> \<not> geooptfinished (fresh\<lparr>atomnos := Some [6], atomcoords := Some [[[0, 0, 0.529177]]]\<rparr>)
   \<and> firststdorient (fresh\<lparr>atomnos := Some [6], atomcoords := Some [[[0, 0, 0.529177]]]\<rparr>)
   \<and> extract_stdorient lit_float (fresh\<lparr>atomnos := Some [6], atomcoords := Some [[[0, 0, 0.529177]]]\<rparr>)
       '' COORDINATES OF ALL ATOMS ARE (ANGS)''
       [''   ATOM   CHARGE       X         Y         Z'', '' ----------'', '' C   6.0   0.0   0.0   0.5'', []]
     = Inr (fresh\<lparr>firststdorient := False, atomnos := Some [6], atomcoords := Some [[[0, 0, 1 / 2]]]\<rparr>,
            [], [])
   \<and> (\<exists>coords. std_rows lit_float [] '' C   6.0   0.0   0.0   0.5'' [[]] = Inr (coords, [], [])
        \<and> atomcoords (fresh\<lparr>firststdorient := False, atomnos := Some [6],
                             atomcoords := Some [[[0, 0, 1 / 2]]]\<rparr>) = Some [coords])"
proof -
  let ?s = "fresh\<lparr>atomnos := Some [6], atomcoords := Some [[[0, 0, 0.529177]]]\<rparr>"
  let ?s' = "fresh\<lparr>firststdorient := False, atomnos := Some [6], atomcoords := Some [[[0, 0, 1 / 2]]]\<rparr>"
  let ?inp = "[''   ATOM   CHARGE       X         Y         Z'', '' ----------'',
               '' C   6.0   0.0   0.0   0.5'', []]"
  have t: "slice 1 29 '' COORDINATES OF ALL ATOMS ARE (ANGS)'' = ''COORDINATES OF ALL ATOMS ARE''"
    by (rule demo_input_trigger)
  have g: "\<not> geooptfinished ?s" and f: "firststdorient ?s"
    by (simp_all add: fresh_def before_parsing_def)
  have run: "extract_stdorient lit_float ?s '' COORDINATES OF ALL ATOMS ARE (ANGS)'' ?inp = Inr (?s', [], [])"
    by (simp add: extract_stdorient_def slice_def demo_std_rows raising_def next_line_def
        fresh_def before_parsing_def)
  note first = geometry_discard_once[of lit_float unit_conv, THEN conjunct1, rule_format]
  have "\<exists>l1 l2 l3 rest coords. ?inp = l1 # l2 # l3 # rest
             \<and> std_rows lit_float [] l3 rest = Inr (coords, [], [])
             \<and> atomcoords ?s' = Some [coords] \<and> \<not> firststdorient ?s'"
    using t g f run by (intro first[where self = ?s and line = "'' COORDINATES OF ALL ATOMS ARE (ANGS)''"]) simp
  then have "\<exists>coords. std_rows lit_float [] '' C   6.0   0.0   0.0   0.5'' [[]] = Inr (coords, [], [])
        \<and> atomcoords ?s' = Some [coords]"
    by (elim exE conjE) simp
  with t g f run show ?thesis by (intro conjI)
qed

subsection \<open>Shell sharing in the basis set\<close>

lemma basis_atoms_end:
  "0 \<le> py_find line ''TOTAL NUMBER''
   \<Longrightarrow> basis_atoms flt self shellcounter symb line inputfile = Inr (self, symb, line, inputfile)"
  by (subst basis_atoms.simps) simp

lemma basis_atoms_step:
  assumes "py_find line ''TOTAL NUMBER'' < 0"
    and "int_tok (split_ws line1) 0 = Inr shellno"
    and "basis_shells flt [] 0 symb line1 inputfile2 = Inr (atom_gbasis, shellsize, symb', line2, inputfile3)"
    and "shellsize \<noteq> 0"
  shows "basis_atoms flt self shellcounter symb line (blank # line1 # inputfile2) =
           basis_atoms flt
             (self\<lparr>gbasis := Some (created (gbasis self)
                        @ replicate (nat (1 + (shellno - shellcounter) div shellsize)) atom_gbasis)\<rparr>)
             (shellno + shellsize) symb' line2 inputfile3"
  using assms by (subst basis_atoms.simps) (simp add: raising_def next_line_def)

text \<open>
  Claim C5, as amended. Let the block describe atom 1 from shell index 1 on with three
  shells (\<open>shellsize = 3\<close>) and then atom 2 from shell index 4 on. The gap is counted from
  \<open>shellcounter = shellno + shellsize\<close>, the index after the shells of atom 1, so for
  atom 2 \<open>shellgap = 4 - 4 = 0\<close> and \<open>numtoadd = 1\<close>: the description of atom 1 is
  appended to \<^verbatim>\<open>gbasis\<close> exactly once, directly followed by the description of atom 2,
  also once.
\<close>

theorem basis_contiguous_atoms:
  assumes "py_find line ''TOTAL NUMBER'' < 0"
    and "int_tok (split_ws line1) 0 = Inr 1"
    and "basis_shells flt [] 0 symb line1 inputfile = Inr (gbasis1, 3, symb1, name2, blank2 # line4 # inputfile')"
    and "py_find name2 ''TOTAL NUMBER'' < 0"
    and "int_tok (split_ws line4) 0 = Inr 4"
    and "basis_shells flt [] 0 symb1 line4 inputfile' = Inr (gbasis2, shellsize2, symb2, total_line, rest)"
    and "shellsize2 \<noteq> 0"
    and "0 \<le> py_find total_line ''TOTAL NUMBER''"
  shows "basis_atoms flt self 1 symb line (blank1 # line1 # inputfile) =
           Inr (self\<lparr>gbasis := Some (created (gbasis self) @ [gbasis1, gbasis2])\<rparr>, symb2, total_line, rest)"
proof -
  have "basis_atoms flt self 1 symb line (blank1 # line1 # inputfile) =
        basis_atoms flt (self\<lparr>gbasis := Some (created (gbasis self) @ [gbasis1])\<rparr>) 4 symb1 name2
          (blank2 # line4 # inputfile')"
    using basis_atoms_step[OF assms(1,2,3), of self 1 blank1] by simp
  also have "\<dots> = basis_atoms flt (self\<lparr>gbasis := Some (created (gbasis self) @ [gbasis1, gbasis2])\<rparr>)
          (4 + shellsize2) symb2 total_line rest"
    using basis_atoms_step[OF assms(4,5,6,7), of "self\<lparr>gbasis := Some (created (gbasis self) @ [gbasis1])\<rparr>" 4 blank2]
    by (simp add: created_def)
  also have "\<dots> = Inr (self\<lparr>gbasis := Some (created (gbasis self) @ [gbasis1, gbasis2])\<rparr>, symb2, total_line, rest)"
    by (rule basis_atoms_end[OF assms(8)])
  finally show ?thesis .
qed

lemma demo_rows:
  "basis_rows lit_float Map.empty s ''   1   S   1   2.0   0.5'' ([] # rest)
     = Inr ([''S'' \<mapsto> [(2, 1 / 2)]], Some ''S'', [], rest)"
  "basis_rows lit_float Map.empty s ''   2   S   2   1.0   0.5'' ([] # rest)
     = Inr ([''S'' \<mapsto> [(1, 1 / 2)]], Some ''S'', [], rest)"
  "basis_rows lit_float Map.empty s ''   3   P   3   1.0   1.0'' ([] # rest)
     = Inr ([''P'' \<mapsto> [(1, 1)]], Some ''P'', [], rest)"
  "basis_rows lit_float Map.empty s ''   4   S   4   0.5   1.0'' ([] # rest)
     = Inr ([''S'' \<mapsto> [(1 / 2, 1)]], Some ''S'', [], rest)"
  by (simp_all add: basis_rows.simps basis_row_def exponent_pair_def setdefault_append_def created_def
      strip_def lstrip_def rstrip_def is_space_def split_ws_def py_nth_def float_tok_def float_str_def
      lit_float_def Let_def)

lemma demo_tokens:
  "length (split_ws ''   1   S   1   2.0   0.5'') = 5"
  "length (split_ws ''   2   S   2   1.0   0.5'') = 5"
  "length (split_ws ''   3   P   3   1.0   1.0'') = 5"
  "length (split_ws ''   4   S   4   0.5   1.0'') = 5"
  "length (split_ws '' H'') = 1"
  "py_find ''   1   S   1   2.0   0.5'' ''TOTAL NUMBER'' < 0"
  "py_find ''   2   S   2   1.0   0.5'' ''TOTAL NUMBER'' < 0"
  "py_find ''   3   P   3   1.0   1.0'' ''TOTAL NUMBER'' < 0"
  "py_find ''   4   S   4   0.5   1.0'' ''TOTAL NUMBER'' < 0"
  "py_find '' H'' ''TOTAL NUMBER'' < 0"
  "py_find ''  SHELL TYPE PRIMITIVE EXPONENT CONTRACTION COEFFICIENTS'' ''TOTAL NUMBER'' < 0"
  "\<not> py_find '' TOTAL NUMBER OF SHELLS = 4'' ''TOTAL NUMBER'' < 0"
  "int_tok (split_ws ''   1   S   1   2.0   0.5'') 0 = Inr 1"
  "int_tok (split_ws ''   4   S   4   0.5   1.0'') 0 = Inr 4"
  by (simp_all add: split_ws_def is_space_def py_find_def int_tok_def py_nth_def py_int_def
      strip_def lstrip_def rstrip_def is_digit_def digit_val_def Let_def)

lemma demo_shells:
  "basis_shells lit_float [] 0 s ''   1   S   1   2.0   0.5''
     [[], ''   2   S   2   1.0   0.5'', [], ''   3   P   3   1.0   1.0'', [], '' H'', [],
      ''   4   S   4   0.5   1.0'', [], '' TOTAL NUMBER OF SHELLS = 4'']
   = Inr ([(''S'', [(2, 1 / 2)]), (''S'', [(1, 1 / 2)]), (''P'', [(1, 1)])], 3, Some ''P'', '' H'',
          [[], ''   4   S   4   0.5   1.0'', [], '' TOTAL NUMBER OF SHELLS = 4''])"
  "basis_shells lit_float [] 0 s ''   4   S   4   0.5   1.0'' [[], '' TOTAL NUMBER OF SHELLS = 4'']
   = Inr ([(''S'', [(1 / 2, 1)])], 1, Some ''S'', '' TOTAL NUMBER OF SHELLS = 4'', [])"
  by (simp_all add: basis_shells.simps demo_rows demo_tokens shell_entries_def)

theorem basis_contiguous_atoms_witness:
  "py_find ''  SHELL TYPE PRIMITIVE EXPONENT CONTRACTION COEFFICIENTS'' ''TOTAL NUMBER'' < 0
   \<and> int_tok (split_ws ''   1   S   1   2.0   0.5'') 0 = Inr 1
   \<and> basis_shells lit_float [] 0 None ''   1   S   1   2.0   0.5''
       [[], ''   2   S   2   1.0   0.5'', [], ''   3   P   3   1.0   1.0'', [], '' H'', [],
        ''   4   S   4   0.5   1.0'', [], '' TOTAL NUMBER OF SHELLS = 4'']
     = Inr ([(''S'', [(2, 1 / 2)]), (''S'', [(1, 1 / 2)]), (''P'', [(1, 1)])], 3, Some ''P'', '' H'',
            [[], ''   4   S   4   0.5   1.0'', [], '' TOTAL NUMBER OF SHELLS = 4''])
   \<and> py_find '' H'' ''TOTAL NUMBER'' < 0
   \<and> int_tok (split_ws ''   4   S   4   0.5   1.0'') 0 = Inr 4
   \<and> basis_shells lit_float [] 0 (Some ''P'') ''   4   S   4   0.5   1.0''
       [[], '' TOTAL NUMBER OF SHELLS = 4'']
     = Inr ([(''S'', [(1 / 2, 1)])], 1, Some ''S'', '' TOTAL NUMBER OF SHELLS = 4'', [])
   \<and> (1 :: int) \<noteq> 0
   \<and> 0 \<le> py_find '' TOTAL NUMBER OF SHELLS = 4'' ''TOTAL NUMBER''
   \<and> basis_atoms lit_float (fresh\<lparr>gbasis := Some []\<rparr>) 1 None
        ''  SHELL TYPE PRIMITIVE EXPONENT CONTRACTION COEFFICIENTS''
        [[], ''   1   S   1   2.0   0.5'',
         [], ''   2   S   2   1.0   0.5'', [], ''   3   P   3   1.0   1.0'', [], '' H'', [],
         ''   4   S   4   0.5   1.0'', [], '' TOTAL NUMBER OF SHELLS = 4'']
     = Inr (fresh\<lparr>gbasis := Some [[(''S'', [(2, 1 / 2)]), (''S'', [(1, 1 / 2)]), (''P'', [(1, 1)])],
                                   [(''S'', [(1 / 2, 1)])]]\<rparr>,
            Some ''S'', '' TOTAL NUMBER OF SHELLS = 4'', [])"
proof -
  have tot: "0 \<le> py_find '' TOTAL NUMBER OF SHELLS = 4'' ''TOTAL NUMBER''"
    using demo_tokens(12) by simp
  have one: "(1 :: int) \<noteq> 0" by simp
  from basis_contiguous_atoms[OF demo_tokens(11) demo_tokens(13) demo_shells(1)[of None] demo_tokens(10)
      demo_tokens(14) demo_shells(2)[of "Some ''P''"] one tot,
      where self = "fresh\<lparr>gbasis := Some []\<rparr>" and ?blank1.0 = "[]"]
  have "basis_atoms lit_float (fresh\<lparr>gbasis := Some []\<rparr>) 1 None
        ''  SHELL TYPE PRIMITIVE EXPONENT CONTRACTION COEFFICIENTS''
        [[], ''   1   S   1   2.0   0.5'',
         [], ''   2   S   2   1.0   0.5'', [], ''   3   P   3   1.0   1.0'', [], '' H'', [],
         ''   4   S   4   0.5   1.0'', [], '' TOTAL NUMBER OF SHELLS = 4'']
     = Inr (fresh\<lparr>gbasis := Some [[(''S'', [(2, 1 / 2)]), (''S'', [(1, 1 / 2)]), (''P'', [(1, 1)])],
                                   [(''S'', [(1 / 2, 1)])]]\<rparr>,
            Some ''S'', '' TOTAL NUMBER OF SHELLS = 4'', [])"
    by (simp add: created_def)
  with demo_tokens(11) demo_tokens(13) demo_shells(1)[of None] demo_tokens(10) demo_tokens(14)
    demo_shells(2)[of "Some ''P''"] one tot
  show ?thesis by (intro conjI)
qed

lemma demo_rows3:
  "basis_rows lit_float Map.empty s ''   1   S   1   2.0   0.5''
     (''   1   S   2   1.0   0.5'' # ''   1   S   3   0.5   1.0'' # [] # rest)
     = Inr ([''S'' \<mapsto> [(2, 1 / 2), (1, 1 / 2), (1 / 2, 1)]], Some ''S'', [], rest)"
  by (simp add: basis_rows.simps basis_row_def exponent_pair_def setdefault_append_def created_def
      strip_def lstrip_def rstrip_def is_space_def split_ws_def py_nth_def float_tok_def float_str_def
      lit_float_def Let_def)

lemma demo_shells3:
  "basis_shells lit_float [] 0 s ''   1   S   1   2.0   0.5''
     [''   1   S   2   1.0   0.5'', ''   1   S   3   0.5   1.0'', [], '' H'', [],
      ''   4   S   4   0.5   1.0'', [], '' TOTAL NUMBER OF SHELLS = 4'']
   = Inr ([(''S'', [(2, 1 / 2), (1, 1 / 2), (1 / 2, 1)])], 1, Some ''S'', '' H'',
          [[], ''   4   S   4   0.5   1.0'', [], '' TOTAL NUMBER OF SHELLS = 4''])"
  by (simp add: basis_shells.simps demo_rows3 demo_tokens shell_entries_def)

text \<open>
  Claim C5 as it is stated fails. On the first log below, whose basis-set block describes
  the shells 1, 2 and 3 for the first atom and then shell 4 for the second, the block leaves
  \<^verbatim>\<open>gbasis\<close> with two entries: the description of the first atom occurs once, not twice.
  On the second log the first atom has the single shell 1 with three primitive rows and the
  second atom starts at shell 4; there \<open>shellgap = 4 - 2 = 2\<close>, and it is the description
  of the second atom that is appended three times, the one of the first atom still once.
\<close>

theorem basis_contiguous_not_replicated:
  "extract_gbasis lit_float fresh None ''     ATOMIC BASIS SET''
     [''  SHELL TYPE PRIMITIVE EXPONENT CONTRACTION COEFFICIENTS'', [], '' C'',
      [], ''   1   S   1   2.0   0.5'',
      [], ''   2   S   2   1.0   0.5'', [], ''   3   P   3   1.0   1.0'', [], '' H'', [],
      ''   4   S   4   0.5   1.0'', [], '' TOTAL NUMBER OF SHELLS = 4'']
   = Inr (fresh\<lparr>gbasis := Some [[(''S'', [(2, 1 / 2)]), (''S'', [(1, 1 / 2)]), (''P'', [(1, 1)])],
                                 [(''S'', [(1 / 2, 1)])]]\<rparr>,
          '' TOTAL NUMBER OF SHELLS = 4'', [])
   \<and> count_list [[(''S'', [(2, 1 / 2)]), (''S'', [(1, 1 / 2)]), (''P'', [(1, 1)])],
                  [(''S'', [(1 / 2, 1 :: real)])]]
        [(''S'', [(2, 1 / 2)]), (''S'', [(1, 1 / 2)]), (''P'', [(1, 1)])] = 1
   \<and> extract_gbasis lit_float fresh None ''     ATOMIC BASIS SET''
       [''  SHELL TYPE PRIMITIVE EXPONENT CONTRACTION COEFFICIENTS'', [], '' C'',
        [], ''   1   S   1   2.0   0.5'', ''   1   S   2   1.0   0.5'', ''   1   S   3   0.5   1.0'',
        [], '' H'', [], ''   4   S   4   0.5   1.0'', [], '' TOTAL NUMBER OF SHELLS = 4'']
     = Inr (fresh\<lparr>gbasis := Some [[(''S'', [(2, 1 / 2), (1, 1 / 2), (1 / 2, 1)])],
                                   [(''S'', [(1 / 2, 1)])], [(''S'', [(1 / 2, 1)])], [(''S'', [(1 / 2, 1)])]]\<rparr>,
            '' TOTAL NUMBER OF SHELLS = 4'', [])"
proof -
  have sk: "skip_to_shell ''  SHELL TYPE PRIMITIVE EXPONENT CONTRACTION COEFFICIENTS'' rest
      = Inr (''  SHELL TYPE PRIMITIVE EXPONENT CONTRACTION COEFFICIENTS'', rest)" for rest
    by (simp add: skip_to_shell.simps py_find_def)
  have at: "basis_atoms lit_float (fresh\<lparr>gbasis := Some []\<rparr>) 1 None
        ''  SHELL TYPE PRIMITIVE EXPONENT CONTRACTION COEFFICIENTS''
        [[], ''   1   S   1   2.0   0.5'',
         [], ''   2   S   2   1.0   0.5'', [], ''   3   P   3   1.0   1.0'', [], '' H'', [],
         ''   4   S   4   0.5   1.0'', [], '' TOTAL NUMBER OF SHELLS = 4'']
     = Inr (fresh\<lparr>gbasis := Some [[(''S'', [(2, 1 / 2)]), (''S'', [(1, 1 / 2)]), (''P'', [(1, 1)])],
                                   [(''S'', [(1 / 2, 1)])]]\<rparr>,
            Some ''S'', '' TOTAL NUMBER OF SHELLS = 4'', [])"
    by (simp add: basis_atoms.simps demo_shells demo_tokens raising_def next_line_def created_def)
  have at3: "basis_atoms lit_float (fresh\<lparr>gbasis := Some []\<rparr>) 1 None
        ''  SHELL TYPE PRIMITIVE EXPONENT CONTRACTION COEFFICIENTS''
        [[], ''   1   S   1   2.0   0.5'', ''   1   S   2   1.0   0.5'', ''   1   S   3   0.5   1.0'',
         [], '' H'', [], ''   4   S   4   0.5   1.0'', [], '' TOTAL NUMBER OF SHELLS = 4'']
     = Inr (fresh\<lparr>gbasis := Some [[(''S'', [(2, 1 / 2), (1, 1 / 2), (1 / 2, 1)])],
                                 [(''S'', [(1 / 2, 1)])], [(''S'', [(1 / 2, 1)])], [(''S'', [(1 / 2, 1)])]]\<rparr>,
            Some ''S'', '' TOTAL NUMBER OF SHELLS = 4'', [])"
    by (simp add: basis_atoms.simps demo_shells3 demo_shells demo_tokens raising_def next_line_def
        created_def eval_nat_numeral)
  show ?thesis
    by (simp add: extract_gbasis_def slice_def raising_def next_line_def sk at at3)
qed

end
